theory Spec2Isabelle
  imports Complex_Main
begin

section \<open>Punishment levels and configuration\<close>

text \<open>
  \<^verbatim>\<open>core/punishments/levels.py\<close>: \<^verbatim>\<open>class PunishmentLevel(int, Enum)\<close> with
  NONE = 0, WARNING = 1, MILD = 2, SEVERE = 3, MAXIMUM = 4. The members are ints, so
  comparison and truthiness are those of the member's value.
\<close>

datatype PunishmentLevel = NONE | WARNING | MILD | SEVERE | MAXIMUM

fun level_value :: "PunishmentLevel \<Rightarrow> int" where
  "level_value NONE = 0"
| "level_value WARNING = 1"
| "level_value MILD = 2"
| "level_value SEVERE = 3"
| "level_value MAXIMUM = 4"

text \<open>\<^verbatim>\<open>PunishmentLevel(n)\<close>: the member with value \<open>n\<close>; ValueError (here \<open>None\<close>)
  when there is none.\<close>

definition PunishmentLevel_of_int :: "int \<Rightarrow> PunishmentLevel option" where
  "PunishmentLevel_of_int n =
     (if n = 0 then Some NONE
      else if n = 1 then Some WARNING
      else if n = 2 then Some MILD
      else if n = 3 then Some SEVERE
      else if n = 4 then Some MAXIMUM
      else None)"

text \<open>
  \<^verbatim>\<open>config/models/punishment.py\<close>. The three per-level tables have the same field
  names in the source (warning, mild, severe, maximum); the record fields carry the
  table's name as a prefix. Thresholds are Python floats in GB: a finite float is a
  rational number, and the only arithmetic done on a threshold is the multiplication by
  \<open>2 ^ 30\<close>, which is exact in binary floating point, so thresholds are modelled as
  \<^typ>\<open>rat\<close>.
\<close>

record ThresholdsConfig =
  thresholds_warning :: rat
  thresholds_mild :: rat
  thresholds_severe :: rat
  thresholds_maximum :: rat

record CooldownConfig =
  cooldowns_warning :: int
  cooldowns_mild :: int
  cooldowns_severe :: int
  cooldowns_maximum :: int

record RequestLimitConfig =
  request_limits_warning :: int
  request_limits_mild :: int
  request_limits_severe :: int
  request_limits_maximum :: int

record PunishmentConfig =
  tracking_period_days :: int
  thresholds :: ThresholdsConfig
  cooldowns :: CooldownConfig
  request_limits :: RequestLimitConfig

definition default_ThresholdsConfig :: ThresholdsConfig where
  "default_ThresholdsConfig =
     \<lparr>thresholds_warning = 500, thresholds_mild = 750,
      thresholds_severe = 1000, thresholds_maximum = 1500\<rparr>"

definition default_CooldownConfig :: CooldownConfig where
  "default_CooldownConfig =
     \<lparr>cooldowns_warning = 3, cooldowns_mild = 5,
      cooldowns_severe = 7, cooldowns_maximum = 14\<rparr>"

definition default_RequestLimitConfig :: RequestLimitConfig where
  "default_RequestLimitConfig =
     \<lparr>request_limits_warning = 0, request_limits_mild = - 5,
      request_limits_severe = - 10, request_limits_maximum = - 15\<rparr>"

definition default_PunishmentConfig :: PunishmentConfig where
  "default_PunishmentConfig =
     \<lparr>tracking_period_days = 30,
      thresholds = default_ThresholdsConfig,
      cooldowns = default_CooldownConfig,
      request_limits = default_RequestLimitConfig\<rparr>"

text \<open>The field validators: what a configuration must satisfy to be constructed.\<close>

definition validate_threshold :: "rat \<Rightarrow> bool" where
  "validate_threshold v \<longleftrightarrow> \<not> v \<le> 0"

definition validate_cooldown :: "int \<Rightarrow> bool" where
  "validate_cooldown v \<longleftrightarrow> \<not> v \<le> 0"

definition validate_limit :: "int \<Rightarrow> bool" where
  "validate_limit v \<longleftrightarrow> \<not> v > 0 \<and> \<not> v < - 100"

section \<open>The punishment calculator\<close>

text \<open>
  \<^verbatim>\<open>core/punishments/calculator.py\<close>, \<^verbatim>\<open>PunishmentCalculator.__init__\<close>: three
  dicts keyed by level. A Python dict iterates in insertion order, and the loop of
  \<^verbatim>\<open>determine_punishment_level\<close> depends on that order, so each dict is an
  association list in the order the source inserts the keys.
\<close>

definition bytes_per_gb :: int where
  "bytes_per_gb = 1024 * 1024 * 1024"

record PunishmentCalculator =
  calc_config :: PunishmentConfig
  calc_thresholds :: "(PunishmentLevel \<times> rat) list"
  calc_cooldowns :: "(PunishmentLevel \<times> int) list"
  calc_reductions :: "(PunishmentLevel \<times> int) list"
  calc_tracking_period_days :: int

definition PunishmentCalculator_init :: "PunishmentConfig \<Rightarrow> PunishmentCalculator" where
  "PunishmentCalculator_init config =
     \<lparr>calc_config = config,
      calc_thresholds =
        [(WARNING, thresholds_warning (thresholds config) * of_int bytes_per_gb),
         (MILD, thresholds_mild (thresholds config) * of_int bytes_per_gb),
         (SEVERE, thresholds_severe (thresholds config) * of_int bytes_per_gb),
         (MAXIMUM, thresholds_maximum (thresholds config) * of_int bytes_per_gb)],
      calc_cooldowns =
        [(WARNING, cooldowns_warning (cooldowns config)),
         (MILD, cooldowns_mild (cooldowns config)),
         (SEVERE, cooldowns_severe (cooldowns config)),
         (MAXIMUM, cooldowns_maximum (cooldowns config))],
      calc_reductions =
        [(WARNING, request_limits_warning (request_limits config)),
         (MILD, request_limits_mild (request_limits config)),
         (SEVERE, request_limits_severe (request_limits config)),
         (MAXIMUM, request_limits_maximum (request_limits config))],
      calc_tracking_period_days = tracking_period_days config\<rparr>"

text \<open>
  The loop \<^verbatim>\<open>for level, threshold in self.thresholds.items()\<close> with its
  accumulator \<^verbatim>\<open>new_level\<close>: every entry whose threshold is reached overwrites the
  accumulator, so the last such entry wins.
\<close>

fun scan_thresholds ::
  "PunishmentLevel \<Rightarrow> (PunishmentLevel \<times> rat) list \<Rightarrow> int \<Rightarrow> PunishmentLevel" where
  "scan_thresholds new_level [] total_data_bytes = new_level"
| "scan_thresholds new_level ((level, threshold) # rest) total_data_bytes =
     scan_thresholds
       (if of_int total_data_bytes \<ge> threshold then level else new_level)
       rest total_data_bytes"

text \<open>
  \<^verbatim>\<open>determine_punishment_level(total_data_bytes, current_level=None)\<close>. The last
  test, \<^verbatim>\<open>if current_level and current_level > new_level\<close>, reads the truth value
  of an int-valued enum member: \<^verbatim>\<open>None\<close> and \<^verbatim>\<open>NONE\<close> (0) are false.
\<close>

definition determine_punishment_level ::
  "PunishmentCalculator \<Rightarrow> int \<Rightarrow> PunishmentLevel option \<Rightarrow> PunishmentLevel" where
  "determine_punishment_level calc total_data_bytes current_level =
     (if current_level = Some MAXIMUM then MAXIMUM
      else
        let new_level = scan_thresholds NONE (calc_thresholds calc) total_data_bytes
        in (case current_level of
              None \<Rightarrow> new_level
            | Some cur \<Rightarrow>
                if level_value cur \<noteq> 0 \<and> level_value cur > level_value new_level
                then cur else new_level))"

section \<open>Values shared by the modules\<close>

text \<open>
  \<^verbatim>\<open>shared/types.py\<close>: \<^verbatim>\<open>UserId = NewType('UserId', str)\<close>. A \<^verbatim>\<open>datetime\<close>
  is an instant counted in microseconds, and \<^verbatim>\<open>timedelta(days=d)\<close> is \<open>d\<close> days of
  microseconds; all datetimes of one run are taken to be of one kind (all naive or all
  aware), so that comparing them never raises.
\<close>

type_synonym UserId = string

type_synonym datetime = int

definition timedelta_days :: "int \<Rightarrow> int" where
  "timedelta_days d = d * 86400000000"

text \<open>The exceptions the modelled code raises or catches, each with its message.\<close>

datatype exn =
    ValueError string
  | KeyError string
  | IntegrityError string
  | OperationalError string
  | APIError string
  | RateLimitError string
  | AuthenticationError string
  | ValidationError string
  | TimeoutError string
  | JSONDecodeError string

text \<open>\<^verbatim>\<open>str(e)\<close> of an exception built from one message.\<close>

fun exn_str :: "exn \<Rightarrow> string" where
  "exn_str (ValueError m) = m"
| "exn_str (KeyError m) = m"
| "exn_str (IntegrityError m) = m"
| "exn_str (OperationalError m) = m"
| "exn_str (APIError m) = m"
| "exn_str (RateLimitError m) = m"
| "exn_str (AuthenticationError m) = m"
| "exn_str (ValidationError m) = m"
| "exn_str (TimeoutError m) = m"
| "exn_str (JSONDecodeError m) = m"

text \<open>\<^verbatim>\<open>except APIError\<close> catches \<^verbatim>\<open>APIError\<close> and its two subclasses
  (\<^verbatim>\<open>api/base.py\<close>), and no other exception: not pydantic's
  \<^verbatim>\<open>ValidationError\<close>, not \<^verbatim>\<open>asyncio.TimeoutError\<close>, not
  \<^verbatim>\<open>json.JSONDecodeError\<close>.\<close>

fun is_APIError :: "exn \<Rightarrow> bool" where
  "is_APIError (APIError m) = True"
| "is_APIError (RateLimitError m) = True"
| "is_APIError (AuthenticationError m) = True"
| "is_APIError e = False"

text \<open>\<^verbatim>\<open>str(n)\<close> of an int, and the format \<^verbatim>\<open>f"{x:.1f}"\<close> of a number: one
  decimal, the exact value rounded to the nearest tenth, a tie to the even one.\<close>

definition digit_char :: "nat \<Rightarrow> char" where
  "digit_char d = ''0123456789'' ! (d mod 10)"

fun str_nat :: "nat \<Rightarrow> string" where
  "str_nat n = (if n < 10 then [digit_char n] else str_nat (n div 10) @ [digit_char (n mod 10)])"

declare str_nat.simps [simp del]

definition str_int :: "int \<Rightarrow> string" where
  "str_int n = (if n < 0 then CHR ''-'' # str_nat (nat (- n)) else str_nat (nat n))"

definition round_half_even :: "rat \<Rightarrow> int" where
  "round_half_even q =
     (let f = \<lfloor>q\<rfloor>; d = q - of_int f
      in if d < 1 / 2 then f
         else if d > 1 / 2 then f + 1
         else if even f then f else f + 1)"

definition format_1f :: "rat \<Rightarrow> string" where
  "format_1f x =
     (let tenths = round_half_even (\<bar>x\<bar> * 10);
          body = str_int (tenths div 10) @ ''.'' @ str_int (tenths mod 10)
      in if x < 0 then CHR ''-'' # body else body)"

section \<open>Database models\<close>

text \<open>
  \<^verbatim>\<open>database/models/__init__.py\<close> (the package \<^verbatim>\<open>database.models\<close>; it shadows
  the module \<^verbatim>\<open>database/models.py\<close> of the same name). The source's classes share
  field names, so each record's fields carry a prefix: \<open>r_\<close> for UserRequest, \<open>p_\<close> for
  UserPunishment, \<open>s_\<close> for UserStats, \<open>d_\<close> for UserData.
\<close>

record UserRequest =
  r_id :: int
  r_user_id :: UserId
  r_media_id :: string
  r_media_type :: string
  r_request_date :: datetime
  r_size_bytes :: int
  r_status :: string

record UserPunishment =
  p_id :: int
  p_user_id :: UserId
  p_level :: int
  p_start_date :: datetime
  p_end_date :: datetime
  p_cooldown_days :: int
  p_request_reduction :: int
  p_reason :: "string option"
  p_data_usage :: int
  p_is_active :: bool

record UserStats =
  s_user_id :: UserId
  s_username :: string
  s_total_data_usage :: int
  s_punishment_level :: int
  s_cooldown_days :: int
  s_request_limit :: int
  s_total_requests :: int
  s_current_punishment_id :: "int option"
  s_last_request_date :: "datetime option"

record UserData =
  d_user_id :: UserId
  d_total_requests :: int
  d_request_frequency :: rat
  d_movie_requests :: int
  d_tv_requests :: int
  d_last_processed :: datetime

section \<open>Calculating a punishment\<close>

text \<open>
  \<^verbatim>\<open>PunishmentCalculator.calculate_punishment\<close>. \<^verbatim>\<open>datetime.now()\<close> is read twice,
  for the start and for the end date: the two readings are the parameters
  \<open>now_start\<close> and \<open>now_end\<close>. \<^verbatim>\<open>PunishmentLevel(current_punishment.level)\<close> raises
  ValueError for an int that is no level, and indexing a dict raises KeyError for a
  missing key.
\<close>

definition dict_get :: "('k \<times> 'v) list \<Rightarrow> 'k \<Rightarrow> string \<Rightarrow> exn + 'v" where
  "dict_get d k shown = (case map_of d k of None \<Rightarrow> Inl (KeyError shown) | Some v \<Rightarrow> Inr v)"

definition calculate_punishment ::
  "PunishmentCalculator \<Rightarrow> datetime \<Rightarrow> datetime \<Rightarrow> UserData \<Rightarrow> int
     \<Rightarrow> UserPunishment option \<Rightarrow> exn + UserPunishment option" where
  "calculate_punishment calc now_start now_end user_data total_data_bytes current_punishment =
     (case (case current_punishment of
              None \<Rightarrow> Inr None
            | Some cp \<Rightarrow>
                if p_is_active cp
                then (case PunishmentLevel_of_int (p_level cp) of
                        None \<Rightarrow> Inl (ValueError (str_int (p_level cp) @ '' is not a valid PunishmentLevel''))
                      | Some l \<Rightarrow> Inr (Some l))
                else Inr None) of
        Inl e \<Rightarrow> Inl e
      | Inr current_level \<Rightarrow>
          let new_level = determine_punishment_level calc total_data_bytes current_level
          in if new_level = NONE then Inr None
             else
               (case dict_get (calc_cooldowns calc) new_level (str_int (level_value new_level)) of
                  Inl e \<Rightarrow> Inl e
                | Inr cooldown_days \<Rightarrow>
               (case dict_get (calc_reductions calc) new_level (str_int (level_value new_level)) of
                  Inl e \<Rightarrow> Inl e
                | Inr request_reduction \<Rightarrow>
               (case dict_get (calc_thresholds calc) new_level (str_int (level_value new_level)) of
                  Inl e \<Rightarrow> Inl e
                | Inr threshold \<Rightarrow>
                    let threshold_gb = threshold / of_int (1024 * 1024 * 1024)
                    in Inr (Some
                         \<lparr>p_id = 0,
                          p_user_id = d_user_id user_data,
                          p_level = level_value new_level,
                          p_start_date = now_start,
                          p_end_date = now_end + timedelta_days cooldown_days,
                          p_cooldown_days = cooldown_days,
                          p_request_reduction = request_reduction,
                          p_reason = Some (''Exceeded '' @ str_int (level_value new_level)
                            @ '' data usage threshold (threshold: '' @ format_1f threshold_gb
                            @ ''GB)''),
                          p_data_usage = total_data_bytes,
                          p_is_active = True\<rparr>)))))"

section \<open>The database\<close>

text \<open>
  \<^verbatim>\<open>database/schema.py\<close> and \<^verbatim>\<open>database/manager.py\<close>. The state is the content of
  the three tables the modelled operations touch, each a list of rows in rowid order; the
  columns \<^verbatim>\<open>created_at\<close> and \<^verbatim>\<open>updated_at\<close> are left out (no modelled operation
  reads them). \<^verbatim>\<open>punishments.id\<close> is AUTOINCREMENT, so the table keeps the largest id
  it has ever given out; \<^verbatim>\<open>requests.id\<close> is a plain INTEGER PRIMARY KEY. The
  connection is opened with \<^verbatim>\<open>isolation_level=None\<close>: every statement is committed
  as it runs, so a statement that fails leaves the statements before it in effect. Each
  operation returns its result, or the exception it raises, together with the new state.
\<close>

record database =
  db_requests :: "UserRequest list"
  db_punishments :: "UserPunishment list"
  db_punishments_seq :: int
  db_user_stats :: "UserStats list"

text \<open>The id SQLite gives an inserted row: one more than the largest rowid of the
  table (1 for an empty table), and for an AUTOINCREMENT column one more than the largest
  id the table has ever held.\<close>

definition largest :: "int list \<Rightarrow> int" where
  "largest ids = (case ids of [] \<Rightarrow> 0 | i # rest \<Rightarrow> fold max rest i)"

definition next_rowid :: "int list \<Rightarrow> int" where
  "next_rowid ids = (if ids = [] then 1 else largest ids + 1)"

definition next_autoincrement :: "int \<Rightarrow> int list \<Rightarrow> int" where
  "next_autoincrement seq ids = (if ids = [] then seq + 1 else max seq (largest ids) + 1)"

text \<open>\<^verbatim>\<open>INSERT INTO punishments (...)\<close>: the column \<^verbatim>\<open>reason\<close> is
  \<^verbatim>\<open>TEXT NOT NULL\<close>; the other columns are bound to values that are never NULL.\<close>

definition sql_insert_punishment ::
  "database \<Rightarrow> UserPunishment \<Rightarrow> (exn + int) \<times> database" where
  "sql_insert_punishment db row =
     (case p_reason row of
        None \<Rightarrow> (Inl (IntegrityError ''NOT NULL constraint failed: punishments.reason''), db)
      | Some reason \<Rightarrow>
          let new_id = next_autoincrement (db_punishments_seq db) (map p_id (db_punishments db))
          in (Inr new_id,
              db\<lparr>db_punishments := db_punishments db @ [row\<lparr>p_id := new_id\<rparr>],
                 db_punishments_seq := new_id\<rparr>))"

text \<open>\<^verbatim>\<open>DatabaseManager.add_punishment\<close>: deactivate the user's active rows, insert
  the new row, point the user's stats row at it.\<close>

definition DatabaseManager_add_punishment ::
  "database \<Rightarrow> UserPunishment \<Rightarrow> (exn + int) \<times> database" where
  "DatabaseManager_add_punishment db punishment =
     (let db1 = db\<lparr>db_punishments :=
                  map (\<lambda>row. if p_user_id row = p_user_id punishment \<and> p_is_active row
                             then row\<lparr>p_is_active := False\<rparr> else row)
                    (db_punishments db)\<rparr>
      in case sql_insert_punishment db1 punishment of
           (Inl e, db2) \<Rightarrow> (Inl e, db2)
         | (Inr punishment_id, db2) \<Rightarrow>
             (Inr punishment_id,
              db2\<lparr>db_user_stats :=
                    map (\<lambda>row. if s_user_id row = p_user_id punishment
                               then row\<lparr>s_current_punishment_id := Some punishment_id,
                                        s_punishment_level := p_level punishment,
                                        s_cooldown_days := p_cooldown_days punishment\<rparr>
                               else row)
                      (db_user_stats db2)\<rparr>))"

text \<open>\<^verbatim>\<open>DatabaseManager.get_active_punishment\<close>:
  \<^verbatim>\<open>WHERE user_id = ? AND is_active = 1 ORDER BY start_date DESC LIMIT 1\<close>. Among rows of
  the same latest start date SQL leaves the choice open; the model takes the first in
  rowid order.\<close>

definition DatabaseManager_get_active_punishment ::
  "database \<Rightarrow> UserId \<Rightarrow> UserPunishment option" where
  "DatabaseManager_get_active_punishment db user_id =
     (case filter (\<lambda>row. p_user_id row = user_id \<and> p_is_active row) (db_punishments db) of
        [] \<Rightarrow> None
      | row # rows \<Rightarrow>
          Some (fold (\<lambda>r best. if p_start_date r > p_start_date best then r else best)
                  rows row))"

text \<open>\<^verbatim>\<open>DatabaseManager.get_user_stats\<close>: the returned object is built from seven
  columns; \<^verbatim>\<open>current_punishment_id\<close> and \<^verbatim>\<open>last_request_date\<close> keep their
  default \<^verbatim>\<open>None\<close>.\<close>

definition DatabaseManager_get_user_stats :: "database \<Rightarrow> UserId \<Rightarrow> UserStats option" where
  "DatabaseManager_get_user_stats db user_id =
     (case filter (\<lambda>row. s_user_id row = user_id) (db_user_stats db) of
        [] \<Rightarrow> None
      | row # rows \<Rightarrow>
          Some \<lparr>s_user_id = s_user_id row,
                s_username = s_username row,
                s_total_data_usage = s_total_data_usage row,
                s_punishment_level = s_punishment_level row,
                s_cooldown_days = s_cooldown_days row,
                s_request_limit = s_request_limit row,
                s_total_requests = s_total_requests row,
                s_current_punishment_id = None,
                s_last_request_date = None\<rparr>)"

text \<open>\<^verbatim>\<open>DatabaseManager.save_user_stats\<close>: \<^verbatim>\<open>UPDATE user_stats SET ... WHERE user_id = ?\<close>
  on six columns.\<close>

definition DatabaseManager_save_user_stats :: "database \<Rightarrow> UserStats \<Rightarrow> database" where
  "DatabaseManager_save_user_stats db stats =
     db\<lparr>db_user_stats :=
          map (\<lambda>row. if s_user_id row = s_user_id stats
                     then row\<lparr>s_username := s_username stats,
                              s_total_data_usage := s_total_data_usage stats,
                              s_total_requests := s_total_requests stats,
                              s_punishment_level := s_punishment_level stats,
                              s_cooldown_days := s_cooldown_days stats,
                              s_request_limit := s_request_limit stats\<rparr>
                     else row)
            (db_user_stats db)\<rparr>"

text \<open>\<^verbatim>\<open>DatabaseManager.create_punishment\<close>: one INSERT, and the created record with
  the new id. (\<^verbatim>\<open>str(user_id)\<close> of a \<^verbatim>\<open>UserId\<close> is the same string.)\<close>

definition DatabaseManager_create_punishment ::
  "database \<Rightarrow> UserId \<Rightarrow> int \<Rightarrow> datetime \<Rightarrow> datetime \<Rightarrow> int \<Rightarrow> int \<Rightarrow> int \<Rightarrow> bool
     \<Rightarrow> string option \<Rightarrow> (exn + UserPunishment) \<times> database" where
  "DatabaseManager_create_punishment db user_id level start_date end_date cooldown_days
       request_reduction data_usage is_active reason =
     (let row = \<lparr>p_id = 0, p_user_id = user_id, p_level = level, p_start_date = start_date,
                 p_end_date = end_date, p_cooldown_days = cooldown_days,
                 p_request_reduction = request_reduction, p_reason = reason,
                 p_data_usage = data_usage, p_is_active = is_active\<rparr>
      in case sql_insert_punishment db row of
           (Inl e, db1) \<Rightarrow> (Inl e, db1)
         | (Inr punishment_id, db1) \<Rightarrow> (Inr (row\<lparr>p_id := punishment_id\<rparr>), db1))"


text \<open>\<^verbatim>\<open>DatabaseManager.add_request\<close>: create or update the user's stats row, then
  insert the request. The table has
  \<^verbatim>\<open>CHECK (media_type IN ('movie', 'tv'))\<close>; the stats statement has already been
  committed when the insert fails it.\<close>

definition DatabaseManager_add_request ::
  "database \<Rightarrow> UserRequest \<Rightarrow> (exn + int) \<times> database" where
  "DatabaseManager_add_request db request =
     (let db1 =
            (if filter (\<lambda>row. s_user_id row = r_user_id request) (db_user_stats db) = []
             then db\<lparr>db_user_stats := db_user_stats db @
                    [\<lparr>s_user_id = r_user_id request,
                      s_username = ''user_'' @ r_user_id request,
                      s_total_data_usage = r_size_bytes request,
                      s_punishment_level = 0,
                      s_cooldown_days = 0,
                      s_request_limit = 10,
                      s_total_requests = 1,
                      s_current_punishment_id = None,
                      s_last_request_date = None\<rparr>]\<rparr>
             else db\<lparr>db_user_stats :=
                    map (\<lambda>row. if s_user_id row = r_user_id request
                               then row\<lparr>s_total_data_usage :=
                                          s_total_data_usage row + r_size_bytes request,
                                        s_total_requests := s_total_requests row + 1\<rparr>
                               else row)
                      (db_user_stats db)\<rparr>)
      in if r_media_type request \<noteq> ''movie'' \<and> r_media_type request \<noteq> ''tv''
         then (Inl (IntegrityError ''CHECK constraint failed: media_type''), db1)
         else
           let request_id = next_rowid (map r_id (db_requests db1))
           in (Inr request_id,
               db1\<lparr>db_requests := db_requests db1 @ [request\<lparr>r_id := request_id\<rparr>]\<rparr>))"

section \<open>The punishment manager\<close>

text \<open>\<^verbatim>\<open>core/punishments/manager.py\<close>. \<^verbatim>\<open>PunishmentManager.get_active_punishment\<close>
  passes the call on to the database manager (the manager always has one: the
  constructor refuses \<^verbatim>\<open>None\<close>).\<close>

definition PunishmentManager_get_active_punishment ::
  "database \<Rightarrow> UserId \<Rightarrow> UserPunishment option" where
  "PunishmentManager_get_active_punishment db user_id =
     DatabaseManager_get_active_punishment db user_id"

text \<open>\<^verbatim>\<open>PunishmentManager.create_punishment\<close>: update the user's stats when there
  are any, then create the punishment. \<^verbatim>\<open>//\<close> is floor division, as \<open>div\<close> on
  \<^typ>\<open>int\<close> is.\<close>

definition PunishmentManager_create_punishment ::
  "database \<Rightarrow> UserId \<Rightarrow> int \<Rightarrow> datetime \<Rightarrow> datetime \<Rightarrow> int \<Rightarrow> int \<Rightarrow> int \<Rightarrow> string
     \<Rightarrow> (exn + UserPunishment) \<times> database" where
  "PunishmentManager_create_punishment db user_id level start_date end_date cooldown_days
       request_reduction data_usage reason =
     (let db1 =
            (case DatabaseManager_get_user_stats db user_id of
               None \<Rightarrow> db
             | Some stats \<Rightarrow>
                 DatabaseManager_save_user_stats db
                   (stats\<lparr>s_punishment_level := level,
                          s_cooldown_days := cooldown_days,
                          s_request_limit :=
                            max 5 (s_request_limit stats
                                   - (s_request_limit stats * request_reduction div 100))\<rparr>))
      in DatabaseManager_create_punishment db1 user_id level start_date end_date cooldown_days
           request_reduction data_usage True (Some reason))"

text \<open>\<^verbatim>\<open>PunishmentManager.process_user_behavior\<close>: the calculator's punishment, when
  there is one, is persisted with \<^verbatim>\<open>DatabaseManager.create_punishment\<close>.\<close>

definition PunishmentManager_process_user_behavior ::
  "PunishmentCalculator \<Rightarrow> database \<Rightarrow> datetime \<Rightarrow> datetime \<Rightarrow> UserData \<Rightarrow> int
     \<Rightarrow> UserPunishment option \<Rightarrow> (exn + UserPunishment option) \<times> database" where
  "PunishmentManager_process_user_behavior calc db now_start now_end user_data total_data_bytes
       current_punishment =
     (case calculate_punishment calc now_start now_end user_data total_data_bytes
             current_punishment of
        Inl e \<Rightarrow> (Inl e, db)
      | Inr None \<Rightarrow> (Inr None, db)
      | Inr (Some punishment) \<Rightarrow>
          (case DatabaseManager_create_punishment db (p_user_id punishment) (p_level punishment)
                  (p_start_date punishment) (p_end_date punishment)
                  (p_cooldown_days punishment) (p_request_reduction punishment)
                  (p_data_usage punishment) (p_is_active punishment) (p_reason punishment) of
             (Inl e, db1) \<Rightarrow> (Inl e, db1)
           | (Inr created, db1) \<Rightarrow> (Inr (Some punishment), db1)))"




section \<open>User status and the user manager\<close>

text \<open>
  \<^verbatim>\<open>core/user_management.py\<close>. A \<^verbatim>\<open>UserStatus\<close> holds five attributes (fields
  prefixed \<open>us_\<close>); the persisted request limit is not one of them. The properties
  read \<^verbatim>\<open>datetime.now()\<close>, the parameter \<open>now\<close>.
\<close>

record UserStatus =
  us_user_id :: UserId
  us_total_requests :: int
  us_total_data_usage :: int
  us_current_punishment :: "UserPunishment option"
  us_last_request_date :: "datetime option"

definition is_punished :: "datetime \<Rightarrow> UserStatus \<Rightarrow> bool" where
  "is_punished now status =
     (case us_current_punishment status of
        None \<Rightarrow> False
      | Some punishment \<Rightarrow> p_is_active punishment \<and> now < p_end_date punishment)"

definition current_request_limit :: "datetime \<Rightarrow> UserStatus \<Rightarrow> int" where
  "current_request_limit now status =
     (if \<not> is_punished now status then 100
      else (case us_current_punishment status of
              None \<Rightarrow> 100
            | Some punishment \<Rightarrow> max 0 (100 - p_request_reduction punishment)))"

text \<open>
  \<^verbatim>\<open>UserManager.add_request\<close>: refuse a user with an active punishment, insert the
  request, then add the request to the user's stats once more and save them. The result
  is the exception raised or the returned object (\<^verbatim>\<open>None\<close> when the database gave
  no id, which an insert that went through never does).
\<close>

definition UserManager_add_request ::
  "datetime \<Rightarrow> database \<Rightarrow> UserId \<Rightarrow> string \<Rightarrow> string \<Rightarrow> int
     \<Rightarrow> (exn + UserRequest option) \<times> database" where
  "UserManager_add_request now db user_id media_id media_type size_bytes =
     (if (case PunishmentManager_get_active_punishment db user_id of
            None \<Rightarrow> False
          | Some punishment \<Rightarrow> p_is_active punishment)
      then (Inl (ValueError ''User has active punishment''), db)
      else
        let request = \<lparr>r_id = 0, r_user_id = user_id, r_media_id = media_id,
                       r_media_type = media_type, r_request_date = now,
                       r_size_bytes = size_bytes, r_status = ''pending''\<rparr>
        in case DatabaseManager_add_request db request of
             (Inl e, db1) \<Rightarrow> (Inl e, db1)
           | (Inr request_id, db1) \<Rightarrow>
               let db2 =
                     (case DatabaseManager_get_user_stats db1 user_id of
                        None \<Rightarrow> db1
                      | Some stats \<Rightarrow>
                          DatabaseManager_save_user_stats db1
                            (stats\<lparr>s_total_requests := s_total_requests stats + 1,
                                   s_total_data_usage :=
                                     s_total_data_usage stats + size_bytes\<rparr>))
               in (Inr (Some (request\<lparr>r_id := request_id\<rparr>)), db2))"

section \<open>HTTP clients\<close>

text \<open>
  \<^verbatim>\<open>api/base.py\<close>, \<^verbatim>\<open>BaseAPIClient._request\<close>. What a service does with one
  request is a reply. Sending the request or reading the response raises an
  \<^verbatim>\<open>aiohttp.ClientError\<close>; or it raises an exception of another kind (an
  \<^verbatim>\<open>asyncio.TimeoutError\<close> when the total timeout runs out, a
  \<^verbatim>\<open>json.JSONDecodeError\<close> from \<^verbatim>\<open>response.json()\<close>); or a response arrives
  with its status, its text and its decoded JSON body. \<^verbatim>\<open>_request\<close> wraps only the
  \<^verbatim>\<open>ClientError\<close> into an \<^verbatim>\<open>APIError\<close>; an exception of another kind passes
  through it as it is.
\<close>

datatype 'a http_reply =
    Client_error string
  | Other_error exn
  | Http_response int string 'a

definition BaseAPIClient_request :: "'a http_reply \<Rightarrow> exn + 'a" where
  "BaseAPIClient_request reply =
     (case reply of
        Client_error msg \<Rightarrow> Inl (APIError (''Request failed: '' @ msg))
      | Other_error e \<Rightarrow> Inl e
      | Http_response status response_text body \<Rightarrow>
          if status = 429 then Inl (RateLimitError ''Rate limit exceeded'')
          else if status = 401 then Inl (AuthenticationError ''Invalid API key'')
          else if status \<ge> 400
          then Inl (APIError (''API request failed: '' @ str_int status @ '' - ''
                               @ response_text))
          else Inr body)"

text \<open>
  A JSON object that the code hands to a pydantic model (\<^verbatim>\<open>model_validate\<close>, or the
  model's constructor): it validates, giving the object, or pydantic raises
  \<^verbatim>\<open>ValidationError\<close> with a message.
\<close>

datatype 'a validated = Valid 'a | Invalid string

definition model_validate :: "'a validated \<Rightarrow> exn + 'a" where
  "model_validate json =
     (case json of Valid object \<Rightarrow> Inr object | Invalid msg \<Rightarrow> Inl (ValidationError msg))"

section \<open>The Overseerr client\<close>

text \<open>
  \<^verbatim>\<open>api/overseerr/client.py\<close>. One request of the broker's list is a JSON object, of
  which the modelled code reads five entries (fields prefixed \<open>rd_\<close>); \<^verbatim>\<open>createdAt\<close>
  is held as the instant its ISO-8601 text denotes. A page of the broker is a JSON
  object that may have the keys \<^verbatim>\<open>results\<close> and \<^verbatim>\<open>pageSize\<close>. The broker is a
  function from the user and the query parameters \<^verbatim>\<open>take\<close>, \<^verbatim>\<open>skip\<close> and
  \<^verbatim>\<open>status\<close> to its reply.
\<close>

record request_data =
  rd_id :: int
  rd_tmdbId :: int
  rd_mediaType :: string
  rd_createdAt :: datetime
  rd_status :: int

record response =
  resp_results :: "request_data list option"
  resp_pageSize :: "int option"

type_synonym broker = "UserId \<Rightarrow> int \<Rightarrow> int \<Rightarrow> int option \<Rightarrow> response http_reply"

text \<open>\<^verbatim>\<open>response.get("results", [])\<close> and \<^verbatim>\<open>response.get("pageSize", 20)\<close>.\<close>

definition get_results :: "response \<Rightarrow> request_data list" where
  "get_results response = (case resp_results response of None \<Rightarrow> [] | Some rs \<Rightarrow> rs)"

definition get_pageSize :: "response \<Rightarrow> int" where
  "get_pageSize response = (case resp_pageSize response of None \<Rightarrow> 20 | Some n \<Rightarrow> n)"

text \<open>The truth value of an optional argument: \<^verbatim>\<open>None\<close> is false; a datetime is
  true; an int is true unless it is 0.\<close>

definition given :: "'a option \<Rightarrow> bool" where
  "given x = (case x of None \<Rightarrow> False | Some v \<Rightarrow> True)"

definition truthy_int :: "int option \<Rightarrow> bool" where
  "truthy_int x = (case x of None \<Rightarrow> False | Some n \<Rightarrow> n \<noteq> 0)"

text \<open>The loop of \<^verbatim>\<open>get_user_requests\<close> that keeps the requests created within the
  date range.\<close>

fun filter_by_date ::
  "datetime option \<Rightarrow> datetime option \<Rightarrow> request_data list \<Rightarrow> request_data list" where
  "filter_by_date start_date end_date [] = []"
| "filter_by_date start_date end_date (request # rest) =
     (if (case start_date of None \<Rightarrow> False | Some s \<Rightarrow> rd_createdAt request < s)
      then filter_by_date start_date end_date rest
      else if (case end_date of None \<Rightarrow> False | Some e \<Rightarrow> rd_createdAt request > e)
      then filter_by_date start_date end_date rest
      else request # filter_by_date start_date end_date rest)"

text \<open>\<^verbatim>\<open>OverseerrClient.get_user_requests\<close>: one page. When a date bound is given, the
  page's \<^verbatim>\<open>results\<close> are replaced by the filtered list.\<close>

definition get_user_requests ::
  "broker \<Rightarrow> UserId \<Rightarrow> datetime option \<Rightarrow> datetime option \<Rightarrow> int option \<Rightarrow> int \<Rightarrow> int
     \<Rightarrow> exn + response" where
  "get_user_requests broker user_id start_date end_date status page page_size =
     (case BaseAPIClient_request
             (broker user_id page_size ((page - 1) * page_size)
                (if truthy_int status then status else None)) of
        Inl e \<Rightarrow> Inl e
      | Inr response \<Rightarrow>
          if given start_date \<or> given end_date
          then Inr (response\<lparr>resp_results :=
                      Some (filter_by_date start_date end_date (get_results response))\<rparr>)
          else Inr response)"

text \<open>
  \<^verbatim>\<open>OverseerrClient.get_all_user_requests\<close>: the \<^verbatim>\<open>while True\<close> loop with its
  variables \<^verbatim>\<open>page\<close> and \<^verbatim>\<open>all_requests\<close>. Nothing bounds the number of pages a
  broker may serve, so the loop is a partial function: \<open>None\<close> is a run that never
  returns. The model also counts the page fetches it has issued.
\<close>

partial_function (option) get_all_user_requests_loop ::
  "broker \<Rightarrow> UserId \<Rightarrow> datetime option \<Rightarrow> datetime option \<Rightarrow> int option \<Rightarrow> int
     \<Rightarrow> request_data list \<Rightarrow> nat \<Rightarrow> ((exn + request_data list) \<times> nat) option" where
  "get_all_user_requests_loop broker user_id start_date end_date status page all_requests
       fetches =
     (case get_user_requests broker user_id start_date end_date status page 20 of
        Inl e \<Rightarrow> Some (Inl e, fetches + 1)
      | Inr response \<Rightarrow>
          (let requests = get_results response
           in if requests = [] then Some (Inr all_requests, fetches + 1)
              else if int (length requests) < get_pageSize response
              then Some (Inr (all_requests @ requests), fetches + 1)
              else get_all_user_requests_loop broker user_id start_date end_date status
                     (page + 1) (all_requests @ requests) (fetches + 1)))"

declare get_all_user_requests_loop.simps [code]

definition get_all_user_requests ::
  "broker \<Rightarrow> UserId \<Rightarrow> datetime option \<Rightarrow> datetime option \<Rightarrow> int option
     \<Rightarrow> ((exn + request_data list) \<times> nat) option" where
  "get_all_user_requests broker user_id start_date end_date status =
     get_all_user_requests_loop broker user_id start_date end_date status 1 [] 0"

section \<open>Media correlation and the library clients\<close>

text \<open>
  \<^verbatim>\<open>core/tracking/correlation.py\<close>, \<^verbatim>\<open>api/radarr/client.py\<close>,
  \<^verbatim>\<open>api/sonarr/client.py\<close>. Of a movie and of a series the size calculation reads
  only \<^verbatim>\<open>size_on_disk\<close>. The library managers answer with a JSON array whose first
  element the client validates against its model; the metadata service answers with a
  JSON object from which \<^verbatim>\<open>MediaIdentifiers\<close> is built, which validates the ids. The
  three services are functions from the looked-up id to a reply. The correlation service
  keeps a cache from TMDB id to identifiers, a dict that the model passes along.
\<close>

record MediaIdentifiers =
  mi_tmdb_id :: int
  mi_tvdb_id :: "int option"
  mi_imdb_id :: "string option"

record external_ids =
  ext_tvdb_id :: "int option"
  ext_imdb_id :: "string option"

record Movie =
  movie_size_on_disk :: int

record Series =
  series_size_on_disk :: int

record services =
  radarr_movie_by_tmdb_id :: "int \<Rightarrow> Movie validated list http_reply"
  sonarr_series_by_tvdb_id :: "int \<Rightarrow> Series validated list http_reply"
  tmdb_tv_external_ids :: "int \<Rightarrow> external_ids validated http_reply"

type_synonym id_cache = "int \<Rightarrow> MediaIdentifiers option"

text \<open>\<^verbatim>\<open>MediaCorrelationService.get_tv_identifiers\<close>: a cached entry is returned as
  it is. The service is asked directly, not through \<^verbatim>\<open>_request\<close>:
  \<^verbatim>\<open>except aiohttp.ClientError\<close> turns a failed transport into \<^verbatim>\<open>None\<close>, an
  exception of another kind leaves the function; a status other than 200 gives
  \<^verbatim>\<open>None\<close>; a 200 whose ids validate is cached and returned, and one whose ids do
  not validate raises. Nothing is cached but a success.\<close>

definition get_tv_identifiers ::
  "services \<Rightarrow> id_cache \<Rightarrow> int \<Rightarrow> (exn + MediaIdentifiers option) \<times> id_cache" where
  "get_tv_identifiers env cache tmdb_id =
     (case cache tmdb_id of
        Some identifiers \<Rightarrow> (Inr (Some identifiers), cache)
      | None \<Rightarrow>
          (case tmdb_tv_external_ids env tmdb_id of
             Client_error msg \<Rightarrow> (Inr None, cache)
           | Other_error e \<Rightarrow> (Inl e, cache)
           | Http_response status response_text json \<Rightarrow>
               if status \<noteq> 200 then (Inr None, cache)
               else
                 (case model_validate json of
                    Inl e \<Rightarrow> (Inl e, cache)
                  | Inr data \<Rightarrow>
                      let identifiers = \<lparr>mi_tmdb_id = tmdb_id, mi_tvdb_id = ext_tvdb_id data,
                                          mi_imdb_id = ext_imdb_id data\<rparr>
                      in (Inr (Some identifiers), cache(tmdb_id \<mapsto> identifiers)))))"

text \<open>\<^verbatim>\<open>RadarrClient.get_movie_by_tmdb_id\<close> and
  \<^verbatim>\<open>SonarrClient.get_series_by_tvdb_id\<close>: \<^verbatim>\<open>None\<close> for an empty list, else
  \<^verbatim>\<open>model_validate(data[0])\<close>, the first match validated.\<close>

definition get_movie_by_tmdb_id :: "services \<Rightarrow> int \<Rightarrow> exn + Movie option" where
  "get_movie_by_tmdb_id env tmdb_id =
     (case BaseAPIClient_request (radarr_movie_by_tmdb_id env tmdb_id) of
        Inl e \<Rightarrow> Inl e
      | Inr data \<Rightarrow>
          (case data of
             [] \<Rightarrow> Inr None
           | first_match # others \<Rightarrow>
               (case model_validate first_match of
                  Inl e \<Rightarrow> Inl e
                | Inr movie \<Rightarrow> Inr (Some movie))))"

definition get_series_by_tvdb_id :: "services \<Rightarrow> int \<Rightarrow> exn + Series option" where
  "get_series_by_tvdb_id env tvdb_id =
     (case BaseAPIClient_request (sonarr_series_by_tvdb_id env tvdb_id) of
        Inl e \<Rightarrow> Inl e
      | Inr data \<Rightarrow>
          (case data of
             [] \<Rightarrow> Inr None
           | first_match # others \<Rightarrow>
               (case model_validate first_match of
                  Inl e \<Rightarrow> Inl e
                | Inr series \<Rightarrow> Inr (Some series))))"

section \<open>The size calculator\<close>

text \<open>
  \<^verbatim>\<open>core/tracking/calculator.py\<close>. \<^verbatim>\<open>int(request.media_id)\<close> is applied to a
  string that \<^verbatim>\<open>str\<close> made of an int; \<open>py_int\<close> is \<^verbatim>\<open>int\<close> on optionally signed
  runs of ASCII digits and raises ValueError on any other string.
\<close>

definition digit_value :: "char \<Rightarrow> nat option" where
  "digit_value c =
     (let code = (of_char c :: nat)
      in if 48 \<le> code \<and> code \<le> 57 then Some (code - 48) else None)"

fun parse_digits :: "nat \<Rightarrow> string \<Rightarrow> nat option" where
  "parse_digits acc [] = Some acc"
| "parse_digits acc (c # cs) =
     (case digit_value c of None \<Rightarrow> None | Some d \<Rightarrow> parse_digits (acc * 10 + d) cs)"

definition py_int :: "string \<Rightarrow> exn + int" where
  "py_int s =
     (let invalid = Inl (ValueError (''invalid literal for int() with base 10: '' @ s))
      in case s of
           [] \<Rightarrow> invalid
         | c # cs \<Rightarrow>
             if c = CHR ''-''
             then (if cs = [] then invalid
                   else case parse_digits 0 cs of None \<Rightarrow> invalid
                        | Some n \<Rightarrow> Inr (- int n))
             else (case parse_digits 0 s of None \<Rightarrow> invalid | Some n \<Rightarrow> Inr (int n)))"

definition calculate_movie_request_size :: "services \<Rightarrow> int \<Rightarrow> exn + int" where
  "calculate_movie_request_size env tmdb_id =
     (case get_movie_by_tmdb_id env tmdb_id of
        Inl e \<Rightarrow> Inl e
      | Inr None \<Rightarrow>
          Inl (APIError (''Movie with TMDB ID '' @ str_int tmdb_id @ '' not found''))
      | Inr (Some movie) \<Rightarrow> Inr (movie_size_on_disk movie))"

text \<open>\<^verbatim>\<open>if not identifiers or not identifiers.tvdb_id\<close>: a missing TVDB id and the
  id 0 both count as not found.\<close>

definition calculate_series_request_size ::
  "services \<Rightarrow> id_cache \<Rightarrow> int \<Rightarrow> (exn + int) \<times> id_cache" where
  "calculate_series_request_size env cache tmdb_id =
     (case get_tv_identifiers env cache tmdb_id of
        (Inl e, cache1) \<Rightarrow> (Inl e, cache1)
      | (Inr None, cache1) \<Rightarrow>
          (Inl (APIError (''Series with TMDB ID '' @ str_int tmdb_id @ '' not found'')), cache1)
      | (Inr (Some identifiers), cache1) \<Rightarrow>
          if \<not> truthy_int (mi_tvdb_id identifiers)
          then (Inl (APIError (''Series with TMDB ID '' @ str_int tmdb_id @ '' not found'')),
                cache1)
          else
            (case mi_tvdb_id identifiers of
               None \<Rightarrow>
                 (Inl (APIError (''Series with TMDB ID '' @ str_int tmdb_id @ '' not found'')),
                  cache1)
             | Some tvdb_id \<Rightarrow>
                 (case get_series_by_tvdb_id env tvdb_id of
                    Inl e \<Rightarrow> (Inl e, cache1)
                  | Inr None \<Rightarrow>
                      (Inl (APIError (''Series with TVDB ID '' @ str_int tvdb_id
                                       @ '' not found'')), cache1)
                  | Inr (Some series) \<Rightarrow> (Inr (series_size_on_disk series), cache1))))"

definition calculate_request_size ::
  "services \<Rightarrow> id_cache \<Rightarrow> UserRequest \<Rightarrow> (exn + int) \<times> id_cache" where
  "calculate_request_size env cache request =
     (case py_int (r_media_id request) of
        Inl e \<Rightarrow> (Inl e, cache)
      | Inr tmdb_id \<Rightarrow>
          if r_media_type request = ''movie''
          then (calculate_movie_request_size env tmdb_id, cache)
          else if r_media_type request = ''tv''
          then calculate_series_request_size env cache tmdb_id
          else (Inl (APIError (''Unknown media type: '' @ r_media_type request)), cache))"

text \<open>The \<^verbatim>\<open>UserRequest\<close> that \<^verbatim>\<open>calculate_user_requests_size\<close> builds from one
  request of the broker.\<close>

definition request_of_data :: "UserId \<Rightarrow> request_data \<Rightarrow> UserRequest" where
  "request_of_data user_id request_data =
     \<lparr>r_id = rd_id request_data,
      r_user_id = user_id,
      r_media_id = str_int (rd_tmdbId request_data),
      r_media_type = rd_mediaType request_data,
      r_request_date = rd_createdAt request_data,
      r_size_bytes = 0,
      r_status = str_int (rd_status request_data)\<rparr>"

text \<open>
  The \<^verbatim>\<open>for request_data in requests\<close> loop of \<^verbatim>\<open>calculate_user_requests_size\<close>
  with its variables \<^verbatim>\<open>total_size\<close> and \<^verbatim>\<open>processed_requests\<close>. The
  \<^verbatim>\<open>try\<close> catches the \<^verbatim>\<open>APIError\<close> family only; any other exception leaves the
  loop and the function, and with it the total and the list built so far are lost.
\<close>

fun process_requests ::
  "services \<Rightarrow> id_cache \<Rightarrow> UserId \<Rightarrow> request_data list \<Rightarrow> int \<Rightarrow> UserRequest list
     \<Rightarrow> (exn + int \<times> UserRequest list) \<times> id_cache" where
  "process_requests env cache user_id [] total_size processed_requests =
     (Inr (total_size, processed_requests), cache)"
| "process_requests env cache user_id (request_data # rest) total_size processed_requests =
     (let request = request_of_data user_id request_data
      in case calculate_request_size env cache request of
           (Inr size_bytes, cache1) \<Rightarrow>
             process_requests env cache1 user_id rest (total_size + size_bytes)
               (processed_requests @ [request\<lparr>r_size_bytes := size_bytes\<rparr>])
         | (Inl e, cache1) \<Rightarrow>
             if is_APIError e
             then process_requests env cache1 user_id rest total_size
                    (processed_requests @ [request\<lparr>r_status := exn_str e\<rparr>])
             else (Inl e, cache1))"

text \<open>\<^verbatim>\<open>SizeCalculator.calculate_user_requests_size\<close>: fetch all requests of the user
  (which may raise, or never return), then run the loop from 0 and the empty list.\<close>

definition calculate_user_requests_size ::
  "services \<Rightarrow> id_cache \<Rightarrow> broker \<Rightarrow> UserId \<Rightarrow> datetime option \<Rightarrow> datetime option
     \<Rightarrow> ((exn + int \<times> UserRequest list) \<times> id_cache) option" where
  "calculate_user_requests_size env cache broker user_id start_date end_date =
     (case get_all_user_requests broker user_id start_date end_date None of
        None \<Rightarrow> None
      | Some (Inl e, fetches) \<Rightarrow> Some (Inl e, cache)
      | Some (Inr requests, fetches) \<Rightarrow>
          Some (process_requests env cache user_id requests 0 []))"

text \<open>What the size lookup of each request returns when the requests are looked up in
  order, the cache passed from one lookup to the next.\<close>

fun lookup_results ::
  "services \<Rightarrow> id_cache \<Rightarrow> UserId \<Rightarrow> request_data list \<Rightarrow> (exn + int) list" where
  "lookup_results env cache user_id [] = []"
| "lookup_results env cache user_id (request_data # rest) =
     (case calculate_request_size env cache (request_of_data user_id request_data) of
        (result, cache1) \<Rightarrow> result # lookup_results env cache1 user_id rest)"



section \<open>Concrete states for the examples\<close>

text \<open>A database whose only row is the stats row of user \<^verbatim>\<open>alice\<close> with a given
  request limit, and the persisted stats that \<^verbatim>\<open>get_user_stats\<close> reads from it.\<close>

definition alice_stats :: "int \<Rightarrow> UserStats" where
  "alice_stats limit =
     \<lparr>s_user_id = ''alice'', s_username = ''alice'', s_total_data_usage = 0,
      s_punishment_level = 0, s_cooldown_days = 0, s_request_limit = limit,
      s_total_requests = 0, s_current_punishment_id = None, s_last_request_date = None\<rparr>"

definition alice_db :: "int \<Rightarrow> database" where
  "alice_db limit =
     \<lparr>db_requests = [], db_punishments = [], db_punishments_seq = 0,
      db_user_stats = [alice_stats limit]\<rparr>"

definition alice_data :: UserData where
  "alice_data =
     \<lparr>d_user_id = ''alice'', d_total_requests = 0, d_request_frequency = 0,
      d_movie_requests = 0, d_tv_requests = 0, d_last_processed = 0\<rparr>"

text \<open>An active punishment of \<^verbatim>\<open>alice\<close> that ends at instant 10 and reduces by 30, a
  database that holds it, and a status that carries it.\<close>

definition alice_punishment :: UserPunishment where
  "alice_punishment =
     \<lparr>p_id = 1, p_user_id = ''alice'', p_level = 2, p_start_date = 0, p_end_date = 10,
      p_cooldown_days = 5, p_request_reduction = 30, p_reason = Some ''Excessive usage'',
      p_data_usage = 0, p_is_active = True\<rparr>"

definition alice_punished_db :: database where
  "alice_punished_db =
     \<lparr>db_requests = [], db_punishments = [alice_punishment], db_punishments_seq = 1,
      db_user_stats = [alice_stats 10]\<rparr>"

definition alice_status :: UserStatus where
  "alice_status =
     \<lparr>us_user_id = ''alice'', us_total_requests = 0, us_total_data_usage = 0,
      us_current_punishment = Some alice_punishment, us_last_request_date = None\<rparr>"

text \<open>A broker with 25 requests of one user, newest first (request \<open>i\<close> was created at
  instant \<open>100 - i\<close>), served in pages of 20: one full page and one short page.\<close>

definition broker_request :: "int \<Rightarrow> request_data" where
  "broker_request i =
     \<lparr>rd_id = i, rd_tmdbId = 600 + i, rd_mediaType = ''movie'', rd_createdAt = 100 - i,
      rd_status = 2\<rparr>"

definition two_page_broker :: broker where
  "two_page_broker user_id n_take n_skip status =
     Http_response 200 ''''
       \<lparr>resp_results =
          Some (if n_skip = 0 then map broker_request [1..20]
                else if n_skip = 20 then map broker_request [21..25]
                else []),
        resp_pageSize = None\<rparr>"






text \<open>The user's active punishment rows, as the table holds them.\<close>

definition active_rows :: "database \<Rightarrow> UserId \<Rightarrow> UserPunishment list" where
  "active_rows db user_id =
     filter (\<lambda>row. p_user_id row = user_id \<and> p_is_active row) (db_punishments db)"

section \<open>Properties of the calculator\<close>

lemma level_value_nonneg: "0 \<le> level_value l"
  by (cases l) simp_all

lemma level_value_le_4: "level_value l \<le> 4"
  by (cases l) simp_all

lemma level_value_inj: "level_value a = level_value b \<Longrightarrow> a = b"
  by (cases a; cases b) simp_all

text \<open>
  Claim C1. Whatever the thresholds, the usage and the current level, the level that
  \<open>determine_punishment_level\<close> returns is never below the current level; and when the
  current level is above the level computed from the thresholds, the current level is
  returned unchanged.
\<close>

theorem determine_punishment_level_never_decreases:
  "level_value cur \<le> level_value (determine_punishment_level calc total_bytes (Some cur))
   \<and> (level_value (scan_thresholds NONE (calc_thresholds calc) total_bytes) < level_value cur
        \<longrightarrow> determine_punishment_level calc total_bytes (Some cur) = cur)"
proof (cases "cur = MAXIMUM")
  case True
  then show ?thesis by (simp add: determine_punishment_level_def)
next
  case False
  let ?n = "scan_thresholds NONE (calc_thresholds calc) total_bytes"
  have nonneg: "0 \<le> level_value ?n"
    by (rule level_value_nonneg)
  show ?thesis
  proof (cases "level_value cur \<noteq> 0 \<and> level_value cur > level_value ?n")
    case True
    with False show ?thesis
      by (simp add: determine_punishment_level_def Let_def)
  next
    case no_keep: False
    with nonneg have "level_value cur \<le> level_value ?n"
      by linarith
    with False no_keep show ?thesis
      by (simp add: determine_punishment_level_def Let_def)
  qed
qed

theorem determine_punishment_level_never_decreases_witness:
  "level_value MILD
     \<le> level_value (determine_punishment_level
          (PunishmentCalculator_init default_PunishmentConfig) (600 * bytes_per_gb) (Some MILD))
   \<and> level_value (scan_thresholds NONE
          (calc_thresholds (PunishmentCalculator_init default_PunishmentConfig))
          (600 * bytes_per_gb)) < level_value MILD
   \<and> determine_punishment_level
        (PunishmentCalculator_init default_PunishmentConfig) (600 * bytes_per_gb) (Some MILD)
      = MILD"
proof -
  have below: "level_value (scan_thresholds NONE
          (calc_thresholds (PunishmentCalculator_init default_PunishmentConfig))
          (600 * bytes_per_gb)) < level_value MILD"
    by (simp add: PunishmentCalculator_init_def default_PunishmentConfig_def
        default_ThresholdsConfig_def bytes_per_gb_def)
  from below determine_punishment_level_never_decreases
    [of MILD "PunishmentCalculator_init default_PunishmentConfig" "600 * bytes_per_gb"]
  show ?thesis by blast
qed

lemma level_value_ge_4: "4 \<le> level_value l \<Longrightarrow> l = MAXIMUM"
  by (cases l) simp_all

lemma determine_without_current:
  "determine_punishment_level calc total_bytes None
     = scan_thresholds NONE (calc_thresholds calc) total_bytes"
  by (simp add: determine_punishment_level_def)

lemma scan_thresholds_init:
  "scan_thresholds NONE (calc_thresholds (PunishmentCalculator_init config)) total_bytes =
     (if thresholds_maximum (thresholds config) * of_int bytes_per_gb \<le> of_int total_bytes
      then MAXIMUM
      else if thresholds_severe (thresholds config) * of_int bytes_per_gb \<le> of_int total_bytes
      then SEVERE
      else if thresholds_mild (thresholds config) * of_int bytes_per_gb \<le> of_int total_bytes
      then MILD
      else if thresholds_warning (thresholds config) * of_int bytes_per_gb \<le> of_int total_bytes
      then WARNING
      else NONE)"
  by (simp add: PunishmentCalculator_init_def)

lemma thresholds_lookup_init:
  "map_of (calc_thresholds (PunishmentCalculator_init config)) l =
     (case l of
        NONE \<Rightarrow> None
      | WARNING \<Rightarrow> Some (thresholds_warning (thresholds config) * of_int bytes_per_gb)
      | MILD \<Rightarrow> Some (thresholds_mild (thresholds config) * of_int bytes_per_gb)
      | SEVERE \<Rightarrow> Some (thresholds_severe (thresholds config) * of_int bytes_per_gb)
      | MAXIMUM \<Rightarrow> Some (thresholds_maximum (thresholds config) * of_int bytes_per_gb))"
  by (cases l) (simp_all add: PunishmentCalculator_init_def)

lemma scan_is_upper_bound:
  assumes "map_of (calc_thresholds (PunishmentCalculator_init config)) l = Some t"
    and "t \<le> of_int total_bytes"
  shows "level_value l
     \<le> level_value (scan_thresholds NONE (calc_thresholds (PunishmentCalculator_init config))
          total_bytes)"
  using assms unfolding scan_thresholds_init thresholds_lookup_init
  by (cases l) (auto split: if_splits)

lemma scan_is_attained:
  "scan_thresholds NONE (calc_thresholds (PunishmentCalculator_init config)) total_bytes = NONE
   \<or> (\<exists>t. map_of (calc_thresholds (PunishmentCalculator_init config))
            (scan_thresholds NONE (calc_thresholds (PunishmentCalculator_init config))
               total_bytes) = Some t
          \<and> t \<le> of_int total_bytes)"
  unfolding scan_thresholds_init thresholds_lookup_init by auto

lemma determine_current_not_above:
  assumes "level_value cur \<le> level_value (determine_punishment_level calc total_bytes None)"
  shows "determine_punishment_level calc total_bytes (Some cur)
     = determine_punishment_level calc total_bytes None"
proof (cases "cur = MAXIMUM")
  case True
  with assms have "determine_punishment_level calc total_bytes None = MAXIMUM"
    by (simp add: level_value_ge_4)
  with True show ?thesis
    by (simp add: determine_punishment_level_def)
next
  case False
  with assms show ?thesis
    by (simp add: determine_punishment_level_def Let_def)
qed

text \<open>
  Claim C2. With the calculator built from a configuration, the level computed from the
  usage alone is the highest configured level whose byte threshold is at most the usage
  (every configured level whose threshold is reached is at or below it, and it is itself
  such a level unless none is reached, when it is NONE); a current level that is not above
  it does not change the result; with current level MAXIMUM every call returns MAXIMUM;
  and under the default thresholds (500, 750, 1000, 1500 GB) a usage of 900 GB gives MILD.
\<close>

theorem determine_punishment_level_highest_threshold:
  "(\<forall>l t. map_of (calc_thresholds (PunishmentCalculator_init config)) l = Some t
            \<and> t \<le> of_int total_bytes
         \<longrightarrow> level_value l
            \<le> level_value (determine_punishment_level (PunishmentCalculator_init config)
                 total_bytes None))
   \<and> (determine_punishment_level (PunishmentCalculator_init config) total_bytes None = NONE
      \<or> (\<exists>t. map_of (calc_thresholds (PunishmentCalculator_init config))
               (determine_punishment_level (PunishmentCalculator_init config) total_bytes None)
               = Some t
             \<and> t \<le> of_int total_bytes))
   \<and> (\<forall>cur. level_value cur
            \<le> level_value (determine_punishment_level (PunishmentCalculator_init config)
                 total_bytes None)
         \<longrightarrow> determine_punishment_level (PunishmentCalculator_init config) total_bytes
               (Some cur)
             = determine_punishment_level (PunishmentCalculator_init config) total_bytes None)
   \<and> determine_punishment_level calc any_bytes (Some MAXIMUM) = MAXIMUM
   \<and> determine_punishment_level (PunishmentCalculator_init default_PunishmentConfig)
        (900 * bytes_per_gb) None = MILD"
proof (intro conjI allI impI)
  fix l t
  assume "map_of (calc_thresholds (PunishmentCalculator_init config)) l = Some t
    \<and> t \<le> of_int total_bytes"
  then show "level_value l
     \<le> level_value (determine_punishment_level (PunishmentCalculator_init config)
          total_bytes None)"
    by (simp add: determine_without_current scan_is_upper_bound)
next
  show "determine_punishment_level (PunishmentCalculator_init config) total_bytes None = NONE
   \<or> (\<exists>t. map_of (calc_thresholds (PunishmentCalculator_init config))
            (determine_punishment_level (PunishmentCalculator_init config) total_bytes None)
            = Some t
          \<and> t \<le> of_int total_bytes)"
    unfolding determine_without_current by (rule scan_is_attained)
next
  fix cur
  assume "level_value cur
     \<le> level_value (determine_punishment_level (PunishmentCalculator_init config)
          total_bytes None)"
  then show "determine_punishment_level (PunishmentCalculator_init config) total_bytes
       (Some cur)
     = determine_punishment_level (PunishmentCalculator_init config) total_bytes None"
    by (rule determine_current_not_above)
next
  show "determine_punishment_level calc any_bytes (Some MAXIMUM) = MAXIMUM"
    by (simp add: determine_punishment_level_def)
next
  show "determine_punishment_level (PunishmentCalculator_init default_PunishmentConfig)
        (900 * bytes_per_gb) None = MILD"
    by (simp add: determine_without_current scan_thresholds_init default_PunishmentConfig_def
        default_ThresholdsConfig_def bytes_per_gb_def)
qed

text \<open>
  The theorem at the default configuration and 900 GB: WARNING (500 GB) and MILD (750 GB)
  are reached, both are at or below the result MILD, whose own threshold is reached, and a
  current level WARNING leaves the result MILD.
\<close>

theorem determine_punishment_level_highest_threshold_witness:
  "map_of (calc_thresholds (PunishmentCalculator_init default_PunishmentConfig)) WARNING
     = Some (500 * of_int bytes_per_gb)
   \<and> (500 * of_int bytes_per_gb :: rat) \<le> of_int (900 * bytes_per_gb)
   \<and> level_value WARNING
      \<le> level_value (determine_punishment_level
           (PunishmentCalculator_init default_PunishmentConfig) (900 * bytes_per_gb) None)
   \<and> determine_punishment_level (PunishmentCalculator_init default_PunishmentConfig)
        (900 * bytes_per_gb) (Some WARNING) = MILD"
proof -
  let ?calc = "PunishmentCalculator_init default_PunishmentConfig"
  note inst = determine_punishment_level_highest_threshold
    [of default_PunishmentConfig "900 * bytes_per_gb" ?calc 0]
  have look: "map_of (calc_thresholds ?calc) WARNING = Some (500 * of_int bytes_per_gb)"
    by (simp add: thresholds_lookup_init default_PunishmentConfig_def
        default_ThresholdsConfig_def)
  have reached: "(500 * of_int bytes_per_gb :: rat) \<le> of_int (900 * bytes_per_gb)"
    by (simp add: bytes_per_gb_def)
  from inst look reached
  have bound: "level_value WARNING
      \<le> level_value (determine_punishment_level ?calc (900 * bytes_per_gb) None)"
    by blast
  from inst have mild: "determine_punishment_level ?calc (900 * bytes_per_gb) None = MILD"
    by blast
  from inst bound
  have "determine_punishment_level ?calc (900 * bytes_per_gb) (Some WARNING)
     = determine_punishment_level ?calc (900 * bytes_per_gb) None"
    by blast
  with mild look reached bound show ?thesis
    by simp
qed

section \<open>Properties of the punishment manager\<close>

lemma filter_map_same_key:
  assumes "\<And>x. P (f x) = P x"
  shows "filter P (map f xs) = map f (filter P xs)"
  using assms by (induction xs) simp_all

lemma get_user_stats_Some_fields:
  assumes "DatabaseManager_get_user_stats db user_id = Some stats"
  shows "s_user_id stats = user_id \<and> s_current_punishment_id stats = None
    \<and> s_last_request_date stats = None"
proof -
  from assms obtain row rows
    where rows: "filter (\<lambda>row. s_user_id row = user_id) (db_user_stats db) = row # rows"
    by (auto simp: DatabaseManager_get_user_stats_def split: list.splits)
  then have "row \<in> set (filter (\<lambda>row. s_user_id row = user_id) (db_user_stats db))"
    by simp
  then have "s_user_id row = user_id"
    by simp
  with assms rows show ?thesis
    by (auto simp: DatabaseManager_get_user_stats_def)
qed

lemma get_user_stats_after_save:
  assumes "DatabaseManager_get_user_stats db user_id = Some stats"
    and "s_user_id stats' = user_id"
    and "s_current_punishment_id stats' = None"
    and "s_last_request_date stats' = None"
  shows "DatabaseManager_get_user_stats (DatabaseManager_save_user_stats db stats') user_id
     = Some stats'"
proof -
  let ?P = "\<lambda>row. s_user_id row = user_id"
  let ?f = "\<lambda>row. if s_user_id row = s_user_id stats'
                  then row\<lparr>s_username := s_username stats',
                           s_total_data_usage := s_total_data_usage stats',
                           s_total_requests := s_total_requests stats',
                           s_punishment_level := s_punishment_level stats',
                           s_cooldown_days := s_cooldown_days stats',
                           s_request_limit := s_request_limit stats'\<rparr>
                  else row"
  from assms(1) obtain row rows where rows: "filter ?P (db_user_stats db) = row # rows"
    by (auto simp: DatabaseManager_get_user_stats_def split: list.splits)
  then have "row \<in> set (filter ?P (db_user_stats db))"
    by simp
  then have key: "s_user_id row = user_id"
    by simp
  have "filter ?P (map ?f (db_user_stats db)) = map ?f (filter ?P (db_user_stats db))"
    by (rule filter_map_same_key) simp
  with rows have "filter ?P (map ?f (db_user_stats db)) = ?f row # map ?f rows"
    by simp
  with key assms(2-4) show ?thesis
    by (simp add: DatabaseManager_get_user_stats_def DatabaseManager_save_user_stats_def)
qed

lemma create_punishment_keeps_stats:
  "db_user_stats (snd (DatabaseManager_create_punishment db u l sd ed cd rr du a r))
     = db_user_stats db"
  by (simp add: DatabaseManager_create_punishment_def sql_insert_punishment_def Let_def
      split: option.splits)

lemma get_user_stats_cong:
  "db_user_stats db' = db_user_stats db
   \<Longrightarrow> DatabaseManager_get_user_stats db' u = DatabaseManager_get_user_stats db u"
  by (simp add: DatabaseManager_get_user_stats_def)

lemma stats_after_manager_create:
  assumes "DatabaseManager_get_user_stats db user_id = Some stats"
  shows "DatabaseManager_get_user_stats
           (snd (PunishmentManager_create_punishment db user_id level start_date end_date
                   cooldown_days request_reduction data_usage reason)) user_id
     = Some (stats\<lparr>s_punishment_level := level,
                    s_cooldown_days := cooldown_days,
                    s_request_limit :=
                      max 5 (s_request_limit stats
                             - (s_request_limit stats * request_reduction div 100))\<rparr>)"
proof -
  let ?stats' = "stats\<lparr>s_punishment_level := level,
                       s_cooldown_days := cooldown_days,
                       s_request_limit :=
                         max 5 (s_request_limit stats
                                - (s_request_limit stats * request_reduction div 100))\<rparr>"
  from get_user_stats_Some_fields [OF assms]
  have "DatabaseManager_get_user_stats (DatabaseManager_save_user_stats db ?stats') user_id
     = Some ?stats'"
    by (intro get_user_stats_after_save [OF assms]) simp_all
  with assms show ?thesis
    by (simp add: PunishmentManager_create_punishment_def Let_def
        get_user_stats_cong [OF create_punishment_keeps_stats])
qed

text \<open>
  Claim C7. When the user has a stats row, \<open>PunishmentManager_create_punishment\<close> leaves
  the persisted request limit at \<open>max 5 (limit - limit * reduction div 100)\<close> (the
  division is the floor division of the source), which is never below 5; from a limit of
  10 and a reduction that takes the computed value below 5 the persisted limit is exactly 5.
\<close>

theorem create_punishment_request_limit:
  assumes "DatabaseManager_get_user_stats db user_id = Some stats"
  shows "\<exists>stats'. DatabaseManager_get_user_stats
            (snd (PunishmentManager_create_punishment db user_id level start_date end_date
                    cooldown_days request_reduction data_usage reason)) user_id = Some stats'
          \<and> s_request_limit stats'
              = max 5 (s_request_limit stats - s_request_limit stats * request_reduction div 100)
          \<and> 5 \<le> s_request_limit stats'
          \<and> (s_request_limit stats = 10 \<and> 10 - 10 * request_reduction div 100 < 5
               \<longrightarrow> s_request_limit stats' = 5)"
  using stats_after_manager_create [OF assms] by auto

theorem create_punishment_request_limit_witness:
  "DatabaseManager_get_user_stats (alice_db 10) ''alice'' = Some (alice_stats 10)
   \<and> s_request_limit (alice_stats 10) = 10
   \<and> 10 - 10 * 60 div 100 < (5::int)
   \<and> (\<exists>stats'. DatabaseManager_get_user_stats
            (snd (PunishmentManager_create_punishment (alice_db 10) ''alice'' 3 0 7 7 60 0
                    ''Excessive usage'')) ''alice'' = Some stats'
          \<and> s_request_limit stats' = 5)"
proof -
  have stored: "DatabaseManager_get_user_stats (alice_db 10) ''alice'' = Some (alice_stats 10)"
    by (simp add: DatabaseManager_get_user_stats_def alice_db_def alice_stats_def)
  have limit: "s_request_limit (alice_stats 10) = 10"
    by (simp add: alice_stats_def)
  have low: "10 - 10 * 60 div 100 < (5::int)"
    by simp
  from create_punishment_request_limit
    [OF stored, of 3 0 7 7 60 0 "''Excessive usage''"] limit low
  have "\<exists>stats'. DatabaseManager_get_user_stats
            (snd (PunishmentManager_create_punishment (alice_db 10) ''alice'' 3 0 7 7 60 0
                    ''Excessive usage'')) ''alice'' = Some stats'
          \<and> s_request_limit stats' = 5"
    by auto
  with stored limit low show ?thesis
    by blast
qed

text \<open>
  Claim C6, the scenario of 1100 GB under the default configuration with no prior
  punishment. The calculator returns a punishment of level SEVERE (3) with 7 cooldown days
  and request reduction \<open>- 10\<close>. Creating that punishment through
  \<open>PunishmentManager_create_punishment\<close> for a user whose persisted limit is 100 leaves
  the limit at 110, since \<open>100 - (100 * - 10 div 100) = 110\<close>; persisting it through
  \<open>PunishmentManager_process_user_behavior\<close> leaves the limit at 100. Neither path
  lowers it to 90.
\<close>

theorem scenario_1100GB_request_limit:
  "(\<exists>p. calculate_punishment (PunishmentCalculator_init default_PunishmentConfig) 0 0
           alice_data (1100 * bytes_per_gb) None = Inr (Some p)
        \<and> p_level p = level_value SEVERE
        \<and> p_cooldown_days p = 7
        \<and> p_request_reduction p = - 10)
   \<and> map_option s_request_limit (DatabaseManager_get_user_stats (alice_db 100) ''alice'')
       = Some 100
   \<and> map_option s_request_limit
        (DatabaseManager_get_user_stats
          (snd (PunishmentManager_create_punishment (alice_db 100) ''alice''
                  (level_value SEVERE) 0 (timedelta_days 7) 7 (- 10) (1100 * bytes_per_gb)
                  ''Exceeded 3 data usage threshold (threshold: 1000.0GB)''))
          ''alice'')
       = Some 110
   \<and> map_option s_request_limit
        (DatabaseManager_get_user_stats
          (snd (PunishmentManager_process_user_behavior
                  (PunishmentCalculator_init default_PunishmentConfig) (alice_db 100) 0 0
                  alice_data (1100 * bytes_per_gb) None))
          ''alice'')
       = Some 100"
proof (intro conjI)
  show "\<exists>p. calculate_punishment (PunishmentCalculator_init default_PunishmentConfig) 0 0
           alice_data (1100 * bytes_per_gb) None = Inr (Some p)
        \<and> p_level p = level_value SEVERE
        \<and> p_cooldown_days p = 7
        \<and> p_request_reduction p = - 10"
    by (simp add: calculate_punishment_def determine_without_current scan_thresholds_init
        default_PunishmentConfig_def default_ThresholdsConfig_def default_CooldownConfig_def
        default_RequestLimitConfig_def bytes_per_gb_def dict_get_def
        PunishmentCalculator_init_def Let_def)
next
  show "map_option s_request_limit (DatabaseManager_get_user_stats (alice_db 100) ''alice'')
       = Some 100"
    by (simp add: DatabaseManager_get_user_stats_def alice_db_def alice_stats_def)
next
  have stored: "DatabaseManager_get_user_stats (alice_db 100) ''alice'' = Some (alice_stats 100)"
    by (simp add: DatabaseManager_get_user_stats_def alice_db_def alice_stats_def)
  show "map_option s_request_limit
        (DatabaseManager_get_user_stats
          (snd (PunishmentManager_create_punishment (alice_db 100) ''alice''
                  (level_value SEVERE) 0 (timedelta_days 7) 7 (- 10) (1100 * bytes_per_gb)
                  ''Exceeded 3 data usage threshold (threshold: 1000.0GB)''))
          ''alice'')
       = Some 110"
    by (simp add: stats_after_manager_create [OF stored] alice_stats_def)
next
  show "map_option s_request_limit
        (DatabaseManager_get_user_stats
          (snd (PunishmentManager_process_user_behavior
                  (PunishmentCalculator_init default_PunishmentConfig) (alice_db 100) 0 0
                  alice_data (1100 * bytes_per_gb) None))
          ''alice'')
       = Some 100"
    by (simp add: PunishmentManager_process_user_behavior_def
        calculate_punishment_def determine_without_current scan_thresholds_init
        default_PunishmentConfig_def default_ThresholdsConfig_def default_CooldownConfig_def
        default_RequestLimitConfig_def bytes_per_gb_def dict_get_def
        PunishmentCalculator_init_def Let_def
        DatabaseManager_create_punishment_def sql_insert_punishment_def
        DatabaseManager_get_user_stats_def alice_db_def alice_stats_def alice_data_def)
qed

section \<open>One active punishment per user\<close>

lemma filter_deactivated:
  "filter (\<lambda>row. p_user_id row = u \<and> p_is_active row)
     (map (\<lambda>row. if p_user_id row = u \<and> p_is_active row
                 then row\<lparr>p_is_active := False\<rparr> else row) rows) = []"
  by (induction rows) simp_all

text \<open>\<open>DatabaseManager_add_punishment\<close> keeps the invariant: after it has inserted an
  active punishment, that row is the user's only active one.\<close>

lemma add_punishment_single_active:
  assumes "p_is_active punishment" and "p_reason punishment = Some reason"
  shows "\<exists>pid. fst (DatabaseManager_add_punishment db punishment) = Inr pid
     \<and> active_rows (snd (DatabaseManager_add_punishment db punishment)) (p_user_id punishment)
       = [punishment\<lparr>p_id := pid\<rparr>]"
  using assms
  by (simp add: DatabaseManager_add_punishment_def sql_insert_punishment_def Let_def
      active_rows_def filter_deactivated)

text \<open>\<open>DatabaseManager_create_punishment\<close> only appends: the rows that were active
  stay active.\<close>

lemma create_punishment_adds_active:
  "active_rows
     (snd (DatabaseManager_create_punishment db user_id level sd ed cd rr du True (Some reason)))
     user_id
   = active_rows db user_id
     @ [\<lparr>p_id = next_autoincrement (db_punishments_seq db) (map p_id (db_punishments db)),
         p_user_id = user_id, p_level = level, p_start_date = sd, p_end_date = ed,
         p_cooldown_days = cd, p_request_reduction = rr, p_reason = Some reason,
         p_data_usage = du, p_is_active = True\<rparr>]"
  by (simp add: DatabaseManager_create_punishment_def sql_insert_punishment_def Let_def
      active_rows_def)

text \<open>
  Claim C3, at two punishments created in sequence for the same user with
  \<open>DatabaseManager_create_punishment\<close> (the operation the punishment manager persists
  with): both rows are active afterwards, the first (id 1) as well as the second (id 2).
\<close>

theorem create_punishment_twice_two_active:
  "map (\<lambda>row. (p_id row, p_is_active row))
     (active_rows
        (snd (DatabaseManager_create_punishment
               (snd (DatabaseManager_create_punishment (alice_db 100) ''alice'' 1 0 3 3 0 0
                       True (Some ''first'')))
               ''alice'' 2 1 6 5 (- 5) 0 True (Some ''second'')))
        ''alice'')
   = [(1, True), (2, True)]"
  by (simp add: create_punishment_adds_active)
    (simp add: active_rows_def alice_db_def next_autoincrement_def
      DatabaseManager_create_punishment_def sql_insert_punishment_def Let_def largest_def)

section \<open>Resetting a punishment\<close>

lemma fold_pick_in:
  "fold (\<lambda>r best. if p_start_date r > p_start_date best then r else best) rows row
     \<in> set (row # rows)"
  by (induction rows arbitrary: row) (auto split: if_splits)

lemma get_active_None_iff:
  "DatabaseManager_get_active_punishment db user_id = None \<longleftrightarrow> active_rows db user_id = []"
  by (simp add: DatabaseManager_get_active_punishment_def active_rows_def split: list.splits)

lemma get_active_Some_active:
  assumes "DatabaseManager_get_active_punishment db user_id = Some p"
  shows "p \<in> set (active_rows db user_id)"
proof -
  from assms obtain row rows where rows: "active_rows db user_id = row # rows"
    and p: "p = fold (\<lambda>r best. if p_start_date r > p_start_date best then r else best)
                  rows row"
    by (auto simp: DatabaseManager_get_active_punishment_def active_rows_def
        split: list.splits)
  from p fold_pick_in [of rows row] rows show ?thesis
    by simp
qed




section \<open>The request limit of a user status\<close>

text \<open>
  Claim C9. A status is punished exactly when it carries a punishment that is active and
  whose end date is after now. For a punished status \<open>current_request_limit\<close> is
  \<open>max 0 (100 - request_reduction)\<close> of that punishment; for any other status it is 100.
  A \<open>UserStatus\<close> has no field for the persisted request limit, so that value cannot
  enter the result.
\<close>

theorem current_request_limit_value:
  "(is_punished now status \<longleftrightarrow>
      (\<exists>p. us_current_punishment status = Some p \<and> p_is_active p \<and> now < p_end_date p))
   \<and> (is_punished now status \<longrightarrow>
        (\<exists>p. us_current_punishment status = Some p
           \<and> current_request_limit now status = max 0 (100 - p_request_reduction p)))
   \<and> (\<not> is_punished now status \<longrightarrow> current_request_limit now status = 100)"
  by (auto simp: is_punished_def current_request_limit_def split: option.splits)

theorem current_request_limit_value_witness:
  "is_punished 5 alice_status
   \<and> current_request_limit 5 alice_status = 70
   \<and> \<not> is_punished 20 alice_status
   \<and> current_request_limit 20 alice_status = 100"
proof -
  have punished: "is_punished 5 alice_status"
    and expired: "\<not> is_punished 20 alice_status"
    by (simp_all add: is_punished_def alice_status_def alice_punishment_def)
  have carried: "us_current_punishment alice_status = Some alice_punishment"
    by (simp add: alice_status_def)
  from punished current_request_limit_value [of 5 alice_status]
  obtain p where "us_current_punishment alice_status = Some p"
    and "current_request_limit 5 alice_status = max 0 (100 - p_request_reduction p)"
    by blast
  with carried have during: "current_request_limit 5 alice_status = 70"
    by (simp add: alice_punishment_def)
  from expired current_request_limit_value [of 20 alice_status]
  have "current_request_limit 20 alice_status = 100"
    by blast
  with punished expired during show ?thesis
    by blast
qed

section \<open>Adding a request\<close>

lemma get_active_of_row:
  assumes "row \<in> set (db_punishments db)" and "p_user_id row = user_id" and "p_is_active row"
  shows "\<exists>p. DatabaseManager_get_active_punishment db user_id = Some p \<and> p_is_active p"
proof -
  from assms have "row \<in> set (active_rows db user_id)"
    by (simp add: active_rows_def)
  then have "active_rows db user_id \<noteq> []"
    by auto
  then obtain p where p: "DatabaseManager_get_active_punishment db user_id = Some p"
    using get_active_None_iff [of db user_id]
    by (cases "DatabaseManager_get_active_punishment db user_id") auto
  from get_active_Some_active [OF p] have "p_is_active p"
    by (simp add: active_rows_def)
  with p show ?thesis
    by blast
qed

lemma save_user_stats_keeps_requests:
  "db_requests (DatabaseManager_save_user_stats db stats) = db_requests db"
  by (simp add: DatabaseManager_save_user_stats_def)

lemma db_add_request_ok:
  assumes "r_media_type request = ''movie'' \<or> r_media_type request = ''tv''"
  shows "fst (DatabaseManager_add_request db request)
       = Inr (next_rowid (map r_id (db_requests db)))
    \<and> db_requests (snd (DatabaseManager_add_request db request))
       = db_requests db @ [request\<lparr>r_id := next_rowid (map r_id (db_requests db))\<rparr>]"
  using assms by (auto simp: DatabaseManager_add_request_def Let_def)

text \<open>
  Claim C10, as stated, at a user without any punishment and the media type
  \<^verbatim>\<open>series\<close>: the insert fails the table's CHECK constraint, so
  \<open>UserManager_add_request\<close> raises IntegrityError and no request is inserted.
\<close>

theorem add_request_series_counterexample:
  "active_rows (alice_db 10) ''alice'' = []
   \<and> fst (UserManager_add_request 0 (alice_db 10) ''alice'' ''603'' ''series'' 5)
      = Inl (IntegrityError ''CHECK constraint failed: media_type'')
   \<and> db_requests (snd (UserManager_add_request 0 (alice_db 10) ''alice'' ''603'' ''series'' 5))
      = []"
  by (simp add: UserManager_add_request_def PunishmentManager_get_active_punishment_def Let_def
      DatabaseManager_get_active_punishment_def DatabaseManager_add_request_def
      active_rows_def alice_db_def alice_stats_def)

text \<open>
  Claim C10, amended. For a user with an active punishment row \<open>UserManager_add_request\<close>
  raises ValueError with the message \<^verbatim>\<open>User has active punishment\<close> and the database is
  unchanged (no request, no change of stats). For a user with no active punishment row and
  a media type \<^verbatim>\<open>movie\<close> or \<^verbatim>\<open>tv\<close> it returns the request carrying the id the
  database assigned, and that request is the one row appended to the requests table.
\<close>

theorem add_request_refuses_punished_user:
  "(row \<in> set (db_punishments db) \<and> p_user_id row = user_id \<and> p_is_active row
      \<longrightarrow> UserManager_add_request now db user_id media_id media_type size_bytes
            = (Inl (ValueError ''User has active punishment''), db))
   \<and> (active_rows db user_id = [] \<and> (media_type = ''movie'' \<or> media_type = ''tv'')
      \<longrightarrow> fst (UserManager_add_request now db user_id media_id media_type size_bytes)
            = Inr (Some \<lparr>r_id = next_rowid (map r_id (db_requests db)), r_user_id = user_id,
                         r_media_id = media_id, r_media_type = media_type,
                         r_request_date = now, r_size_bytes = size_bytes,
                         r_status = ''pending''\<rparr>)
          \<and> db_requests
               (snd (UserManager_add_request now db user_id media_id media_type size_bytes))
            = db_requests db
              @ [\<lparr>r_id = next_rowid (map r_id (db_requests db)), r_user_id = user_id,
                  r_media_id = media_id, r_media_type = media_type,
                  r_request_date = now, r_size_bytes = size_bytes,
                  r_status = ''pending''\<rparr>])"
proof (intro conjI impI)
  assume "row \<in> set (db_punishments db) \<and> p_user_id row = user_id \<and> p_is_active row"
  then obtain p where "DatabaseManager_get_active_punishment db user_id = Some p"
    and "p_is_active p"
    using get_active_of_row by blast
  then show "UserManager_add_request now db user_id media_id media_type size_bytes
     = (Inl (ValueError ''User has active punishment''), db)"
    by (simp add: UserManager_add_request_def PunishmentManager_get_active_punishment_def)
next
  let ?request = "\<lparr>r_id = 0, r_user_id = user_id, r_media_id = media_id,
                    r_media_type = media_type, r_request_date = now,
                    r_size_bytes = size_bytes, r_status = ''pending''\<rparr>"
  assume free: "active_rows db user_id = [] \<and> (media_type = ''movie'' \<or> media_type = ''tv'')"
  then have none: "DatabaseManager_get_active_punishment db user_id = None"
    by (simp add: get_active_None_iff)
  from free have "r_media_type ?request = ''movie'' \<or> r_media_type ?request = ''tv''"
    by simp
  note inserted = db_add_request_ok [OF this, of db]
  obtain res db1 where run: "DatabaseManager_add_request db ?request = (res, db1)"
    by (cases "DatabaseManager_add_request db ?request")
  with inserted have res: "res = Inr (next_rowid (map r_id (db_requests db)))"
    and reqs: "db_requests db1
       = db_requests db @ [?request\<lparr>r_id := next_rowid (map r_id (db_requests db))\<rparr>]"
    by simp_all
  from none run res
  show "fst (UserManager_add_request now db user_id media_id media_type size_bytes)
     = Inr (Some \<lparr>r_id = next_rowid (map r_id (db_requests db)), r_user_id = user_id,
                  r_media_id = media_id, r_media_type = media_type,
                  r_request_date = now, r_size_bytes = size_bytes,
                  r_status = ''pending''\<rparr>)"
    by (simp add: UserManager_add_request_def PunishmentManager_get_active_punishment_def
        Let_def)
  from none run res reqs
  show "db_requests
          (snd (UserManager_add_request now db user_id media_id media_type size_bytes))
     = db_requests db
       @ [\<lparr>r_id = next_rowid (map r_id (db_requests db)), r_user_id = user_id,
           r_media_id = media_id, r_media_type = media_type,
           r_request_date = now, r_size_bytes = size_bytes,
           r_status = ''pending''\<rparr>]"
    by (simp add: UserManager_add_request_def PunishmentManager_get_active_punishment_def
        Let_def save_user_stats_keeps_requests split: option.splits)
qed

theorem add_request_refuses_punished_user_witness:
  "alice_punishment \<in> set (db_punishments alice_punished_db)
   \<and> p_user_id alice_punishment = ''alice'' \<and> p_is_active alice_punishment
   \<and> UserManager_add_request 0 alice_punished_db ''alice'' ''603'' ''movie'' 5
      = (Inl (ValueError ''User has active punishment''), alice_punished_db)
   \<and> active_rows (alice_db 10) ''alice'' = []
   \<and> fst (UserManager_add_request 0 (alice_db 10) ''alice'' ''603'' ''movie'' 5)
      = Inr (Some \<lparr>r_id = 1, r_user_id = ''alice'', r_media_id = ''603'',
                   r_media_type = ''movie'', r_request_date = 0, r_size_bytes = 5,
                   r_status = ''pending''\<rparr>)"
proof -
  have row: "alice_punishment \<in> set (db_punishments alice_punished_db)
      \<and> p_user_id alice_punishment = ''alice'' \<and> p_is_active alice_punishment"
    by (simp add: alice_punished_db_def alice_punishment_def)
  have free: "active_rows (alice_db 10) ''alice'' = []"
    by (simp add: active_rows_def alice_db_def)
  have first_id: "next_rowid (map r_id (db_requests (alice_db 10))) = 1"
    by (simp add: next_rowid_def alice_db_def)
  from row add_request_refuses_punished_user
    [of alice_punishment alice_punished_db "''alice''" 0 "''603''" "''movie''" 5]
  have refused: "UserManager_add_request 0 alice_punished_db ''alice'' ''603'' ''movie'' 5
      = (Inl (ValueError ''User has active punishment''), alice_punished_db)"
    by blast
  from free add_request_refuses_punished_user
    [of alice_punishment "alice_db 10" "''alice''" 0 "''603''" "''movie''" 5]
  have "fst (UserManager_add_request 0 (alice_db 10) ''alice'' ''603'' ''movie'' 5)
      = Inr (Some \<lparr>r_id = next_rowid (map r_id (db_requests (alice_db 10))),
                   r_user_id = ''alice'', r_media_id = ''603'',
                   r_media_type = ''movie'', r_request_date = 0, r_size_bytes = 5,
                   r_status = ''pending''\<rparr>)"
    by blast
  with first_id row free refused show ?thesis
    by simp
qed

section \<open>Fetching all pages\<close>

lemma get_user_requests_no_dates:
  assumes "broker user_id 20 ((page - 1) * 20) (if truthy_int status then status else None)
     = Http_response 200 body_text response"
  shows "get_user_requests broker user_id None None status page 20 = Inr response"
  using assms by (simp add: get_user_requests_def BaseAPIClient_request_def given_def)

lemma loop_without_dates:
  fixes pages :: "nat \<Rightarrow> request_data list"
  assumes positive: "0 < page_size"
    and page_size: "page_size = get_pageSize \<lparr>resp_results = None, resp_pageSize = ps\<rparr>"
    and served: "\<And>k. k \<le> N \<Longrightarrow>
        broker user_id 20 (int k * 20) (if truthy_int status then status else None)
          = Http_response 200 body_text \<lparr>resp_results = Some (pages k), resp_pageSize = ps\<rparr>"
    and full: "\<And>k. k < N \<Longrightarrow> int (length (pages k)) = page_size"
    and short: "int (length (pages N)) < page_size"
    and le: "j \<le> N"
  shows "get_all_user_requests_loop broker user_id None None status (int j + 1) acc fetches
     = Some (Inr (acc @ concat (map pages [j..<Suc N])), fetches + (Suc N - j))"
  using le
proof (induction n \<equiv> "N - j" arbitrary: j acc fetches)
  case 0
  then have j: "j = N"
    by simp
  have page: "get_user_requests broker user_id None None status (int N + 1) 20
      = Inr \<lparr>resp_results = Some (pages N), resp_pageSize = ps\<rparr>"
    by (rule get_user_requests_no_dates [where body_text = body_text]) (simp add: served)
  from short page_size
  have less: "int (length (pages N))
      < get_pageSize \<lparr>resp_results = Some (pages N), resp_pageSize = ps\<rparr>"
    by (simp add: get_pageSize_def)
  show ?case
    unfolding j
    by (subst get_all_user_requests_loop.simps)
      (auto simp: page get_results_def less Let_def)
next
  case (Suc n)
  then have j: "j < N" and n: "n = N - Suc j" and le: "Suc j \<le> N"
    by simp_all
  have page: "get_user_requests broker user_id None None status (int j + 1) 20
      = Inr \<lparr>resp_results = Some (pages j), resp_pageSize = ps\<rparr>"
    using j by (intro get_user_requests_no_dates [where body_text = body_text])
      (simp add: served)
  from full [OF j] positive have nonempty: "pages j \<noteq> []"
    by auto
  from full [OF j] page_size
  have notless: "\<not> int (length (pages j))
      < get_pageSize \<lparr>resp_results = Some (pages j), resp_pageSize = ps\<rparr>"
    by (simp add: get_pageSize_def)
  have step: "get_all_user_requests_loop broker user_id None None status (int j + 1) acc
        fetches
     = get_all_user_requests_loop broker user_id None None status (int j + 1 + 1)
         (acc @ pages j) (fetches + 1)"
    by (subst get_all_user_requests_loop.simps)
      (simp add: page get_results_def nonempty notless Let_def)
  have next_page: "int (Suc j) + 1 = int j + 1 + 1"
    by simp
  have range: "[j..<Suc N] = j # [Suc j..<Suc N]"
    using j by (simp add: upt_conv_Cons)
  from Suc.hyps(1) [OF n le, of "acc @ pages j" "fetches + 1"] j
  show ?case
    unfolding step range next_page by simp
qed

text \<open>
  Without date bounds the loop does what claim C5 says: for a broker that serves \<open>N\<close>
  full pages (pages \<open>0\<close> to \<open>N - 1\<close>, each of exactly the page size, which is the
  response's \<^verbatim>\<open>pageSize\<close> or 20) and then a shorter or empty page \<open>N\<close>,
  \<open>get_all_user_requests\<close> returns, with the pages concatenated in order, after
  exactly \<open>N + 1\<close> fetches.
\<close>

lemma pagination_without_date_filter:
  fixes pages :: "nat \<Rightarrow> request_data list"
  assumes "0 < page_size"
    and "page_size = get_pageSize \<lparr>resp_results = None, resp_pageSize = ps\<rparr>"
    and "\<And>k. k \<le> N \<Longrightarrow>
        broker user_id 20 (int k * 20) (if truthy_int status then status else None)
          = Http_response 200 body_text \<lparr>resp_results = Some (pages k), resp_pageSize = ps\<rparr>"
    and "\<And>k. k < N \<Longrightarrow> int (length (pages k)) = page_size"
    and "int (length (pages N)) < page_size"
  shows "get_all_user_requests broker user_id None None status
     = Some (Inr (concat (map pages [0..<Suc N])), Suc N)"
proof -
  have "get_all_user_requests_loop broker user_id None None status (int 0 + 1) [] 0
     = Some (Inr ([] @ concat (map pages [0..<Suc N])), 0 + (Suc N - 0))"
    using assms
    by (intro loop_without_dates
        [where body_text = body_text and ps = ps and page_size = page_size]) simp_all
  then show ?thesis
    by (simp add: get_all_user_requests_def)
qed

lemma two_page_broker_first_page_until_98:
  "get_user_requests two_page_broker ''alice'' None (Some 98) None 1 20
   = Inr \<lparr>resp_results = Some (map broker_request [2..20]), resp_pageSize = None\<rparr>"
  by code_simp

lemma two_page_broker_first_page:
  "get_user_requests two_page_broker ''alice'' None None None 1 20
   = Inr \<lparr>resp_results = Some (map broker_request [1..20]), resp_pageSize = None\<rparr>"
  by code_simp

lemma two_page_broker_second_page:
  "get_user_requests two_page_broker ''alice'' None None None 2 20
   = Inr \<lparr>resp_results = Some (map broker_request [21..25]), resp_pageSize = None\<rparr>"
  by code_simp

lemma two_page_broker_all:
  "get_all_user_requests two_page_broker ''alice'' None None None
   = Some (Inr (map broker_request [1..25]), 2)"
  unfolding get_all_user_requests_def
  apply (subst get_all_user_requests_loop.simps)
  apply (simp add: two_page_broker_first_page get_results_def get_pageSize_def)
  apply (subst get_all_user_requests_loop.simps)
  apply (simp add: two_page_broker_second_page get_results_def get_pageSize_def)
  apply code_simp
  done

text \<open>
  Claim C5, at a broker that serves one full page of 20 requests and then a short page of
  5, called with an end date that excludes only the newest request. The first page comes
  back from \<open>get_user_requests\<close> with 19 requests, the loop takes it for the last page,
  and \<open>get_all_user_requests\<close> returns after one fetch with requests 2 to 20. Requests
  21 to 25 of the second page lie within the date range and are missing. Without the end
  date the same broker is read in two fetches and all 25 requests are returned.
\<close>

theorem get_all_user_requests_stops_on_filtered_page:
  "get_all_user_requests two_page_broker ''alice'' None (Some 98) None
     = Some (Inr (map broker_request [2..20]), 1)
   \<and> filter_by_date None (Some 98) (map broker_request [21..25]) = map broker_request [21..25]
   \<and> get_all_user_requests two_page_broker ''alice'' None None None
     = Some (Inr (map broker_request [1..25]), 2)"
proof (intro conjI)
  show "get_all_user_requests two_page_broker ''alice'' None (Some 98) None
     = Some (Inr (map broker_request [2..20]), 1)"
    unfolding get_all_user_requests_def
    by (subst get_all_user_requests_loop.simps)
      (simp add: two_page_broker_first_page_until_98 get_results_def get_pageSize_def)
next
  show "filter_by_date None (Some 98) (map broker_request [21..25])
     = map broker_request [21..25]"
    by code_simp
next
  show "get_all_user_requests two_page_broker ''alice'' None None None
     = Some (Inr (map broker_request [1..25]), 2)"
    by (rule two_page_broker_all)
qed

section \<open>Aggregating the sizes of a user's requests\<close>

lemma digit_values: "list_all (\<lambda>k. digit_value (''0123456789'' ! k) = Some k) [0..<10]"
  by code_simp

lemma digit_value_below_10:
  assumes "k < 10"
  shows "digit_value (''0123456789'' ! k) = Some k"
proof -
  from assms have "k \<in> set [0..<10]"
    by simp
  with digit_values show ?thesis
    unfolding list_all_iff by blast
qed

lemma digit_value_digit_char: "digit_value (digit_char d) = Some (d mod 10)"
  unfolding digit_char_def by (rule digit_value_below_10) simp

lemma digit_char_not_minus: "digit_char d \<noteq> CHR ''-''"
proof -
  have "digit_value (CHR ''-'') = None" by (simp add: digit_value_def)
  with digit_value_digit_char [of d] show ?thesis by auto
qed

lemma parse_digits_snoc:
  "parse_digits acc (cs @ [c]) =
     (case parse_digits acc cs of None \<Rightarrow> None
      | Some a \<Rightarrow> (case digit_value c of None \<Rightarrow> None | Some d \<Rightarrow> Some (a * 10 + d)))"
  by (induction cs arbitrary: acc) (simp_all split: option.splits)

lemma parse_digits_str_nat: "parse_digits 0 (str_nat n) = Some n"
proof (induction n rule: str_nat.induct)
  case (1 n)
  show ?case
  proof (cases "n < 10")
    case True
    then show ?thesis
      by (subst str_nat.simps) (simp add: digit_value_digit_char)
  next
    case False
    with 1 have "parse_digits 0 (str_nat (n div 10)) = Some (n div 10)" by simp
    with False show ?thesis
      by (subst str_nat.simps) (simp add: parse_digits_snoc digit_value_digit_char)
  qed
qed

lemma str_nat_first: "\<exists>d cs. str_nat n = digit_char d # cs"
proof (induction n rule: str_nat.induct)
  case (1 n)
  show ?case
  proof (cases "n < 10")
    case True
    then show ?thesis by (subst str_nat.simps) auto
  next
    case False
    with 1 obtain d cs where "str_nat (n div 10) = digit_char d # cs" by auto
    with False show ?thesis by (subst str_nat.simps) auto
  qed
qed

lemma py_int_str_int: "py_int (str_int n) = Inr n"
proof (cases "n < 0")
  case True
  obtain d cs where first: "str_nat (nat (- n)) = digit_char d # cs"
    using str_nat_first by blast
  from True parse_digits_str_nat [of "nat (- n)"] first show ?thesis
    by (simp add: py_int_def str_int_def)
next
  case False
  obtain d cs where first: "str_nat (nat n) = digit_char d # cs"
    using str_nat_first by blast
  from False parse_digits_str_nat [of "nat n"] first show ?thesis
    by (simp add: py_int_def str_int_def digit_char_not_minus)
qed

text \<open>The lookup of a request built from the broker's data: \<^verbatim>\<open>int\<close> gives back the
  TMDB id that \<^verbatim>\<open>str\<close> was applied to, so it never raises there.\<close>

lemma calculate_request_size_of_data:
  "calculate_request_size env cache (request_of_data user_id request_data) =
     (if rd_mediaType request_data = ''movie''
      then (calculate_movie_request_size env (rd_tmdbId request_data), cache)
      else if rd_mediaType request_data = ''tv''
      then calculate_series_request_size env cache (rd_tmdbId request_data)
      else (Inl (APIError (''Unknown media type: '' @ rd_mediaType request_data)), cache))"
  by (simp add: calculate_request_size_def request_of_data_def py_int_str_int)


lemma process_requests_abort:
  assumes "\<exists>e. Inl e \<in> set (lookup_results env cache user_id requests) \<and> \<not> is_APIError e"
  shows "\<exists>e. fst (process_requests env cache user_id requests total_size processed) = Inl e
    \<and> \<not> is_APIError e"
  using assms
proof (induction requests arbitrary: cache total_size processed)
  case Nil
  then show ?case
    by simp
next
  case (Cons request_data rest)
  obtain result cache1
    where run: "calculate_request_size env cache (request_of_data user_id request_data)
      = (result, cache1)"
    by (cases "calculate_request_size env cache (request_of_data user_id request_data)")
  show ?case
  proof (cases "\<exists>e. result = Inl e \<and> \<not> is_APIError e")
    case True
    with run show ?thesis
      by (auto simp: Let_def)
  next
    case False
    with run Cons.prems
    have "\<exists>e. Inl e \<in> set (lookup_results env cache1 user_id rest) \<and> \<not> is_APIError e"
      by auto
    from Cons.IH [OF this] False run show ?thesis
      by (cases result) (auto simp: Let_def)
  qed
qed

text \<open>An exception outside the \<^verbatim>\<open>APIError\<close> family that a lookup raises leaves
  \<open>calculate_user_requests_size\<close>: no total and no list are returned.\<close>

lemma aggregation_aborts_on_other_exception:
  assumes "get_all_user_requests broker user_id start_date end_date None
     = Some (Inr requests, fetches)"
    and "\<exists>e. Inl e \<in> set (lookup_results env cache user_id requests) \<and> \<not> is_APIError e"
  shows "\<exists>e cache'.
      calculate_user_requests_size env cache broker user_id start_date end_date
        = Some (Inl e, cache')
      \<and> \<not> is_APIError e"
proof -
  from process_requests_abort [OF assms(2), of 0 "[]"]
  obtain e where "fst (process_requests env cache user_id requests 0 []) = Inl e"
    and "\<not> is_APIError e"
    by blast
  with assms(1) show ?thesis
    by (cases "process_requests env cache user_id requests 0 []")
      (auto simp: calculate_user_requests_size_def)
qed






end
